theory Spec2Isabelle
  imports Main
begin

section \<open>Python strings and numbers\<close>

text \<open>
  The engine of \<^verbatim>\<open>lht_engine.py\<close> works on Python \<^verbatim>\<open>str\<close> values. A string is
  modelled as a list of 8-bit characters, each standing for the code point of the same
  number, so the model covers the texts whose code points are below 256 (ASCII and
  Latin-1). On that range \<^verbatim>\<open>str.lower\<close> maps one character to one character,
  \<^verbatim>\<open>\d\<close> matches the ten ASCII digits only, and \<^verbatim>\<open>str.isspace\<close> holds for
  twelve characters. The arrow U+2192, which the engine only writes into strings it
  produces, is kept as its three UTF-8 bytes.

  Exceptions are values: a function that can raise returns \<open>error + 'a\<close>, with
  \<open>Inl\<close> the exception.
\<close>

datatype error = ValueError | IndexError | KeyError

definition ascii_uppercase :: string where
  "ascii_uppercase = ''ABCDEFGHIJKLMNOPQRSTUVWXYZ''"

definition ascii_lowercase :: string where
  "ascii_lowercase = ''abcdefghijklmnopqrstuvwxyz''"

definition latin1_uppercase :: string where
  "latin1_uppercase =
     [CHR 0xC0, CHR 0xC1, CHR 0xC2, CHR 0xC3, CHR 0xC4, CHR 0xC5, CHR 0xC6, CHR 0xC7,
      CHR 0xC8, CHR 0xC9, CHR 0xCA, CHR 0xCB, CHR 0xCC, CHR 0xCD, CHR 0xCE, CHR 0xCF,
      CHR 0xD0, CHR 0xD1, CHR 0xD2, CHR 0xD3, CHR 0xD4, CHR 0xD5, CHR 0xD6,
      CHR 0xD8, CHR 0xD9, CHR 0xDA, CHR 0xDB, CHR 0xDC, CHR 0xDD, CHR 0xDE]"

definition latin1_lowercase :: string where
  "latin1_lowercase =
     [CHR 0xE0, CHR 0xE1, CHR 0xE2, CHR 0xE3, CHR 0xE4, CHR 0xE5, CHR 0xE6, CHR 0xE7,
      CHR 0xE8, CHR 0xE9, CHR 0xEA, CHR 0xEB, CHR 0xEC, CHR 0xED, CHR 0xEE, CHR 0xEF,
      CHR 0xF0, CHR 0xF1, CHR 0xF2, CHR 0xF3, CHR 0xF4, CHR 0xF5, CHR 0xF6,
      CHR 0xF8, CHR 0xF9, CHR 0xFA, CHR 0xFB, CHR 0xFC, CHR 0xFD, CHR 0xFE]"

text \<open>\<^verbatim>\<open>str.lower\<close>, character by character.\<close>

definition char_lower :: "char \<Rightarrow> char" where
  "char_lower c =
     (case map_of (zip (ascii_uppercase @ latin1_uppercase)
                       (ascii_lowercase @ latin1_lowercase)) c of
        Some l \<Rightarrow> l
      | None \<Rightarrow> c)"

definition str_lower :: "string \<Rightarrow> string" where
  "str_lower s = map char_lower s"

text \<open>\<^verbatim>\<open>s.startswith(p)\<close> and the substring test \<^verbatim>\<open>sub in s\<close>.\<close>

fun startswith :: "string \<Rightarrow> string \<Rightarrow> bool" where
  "startswith s [] = True"
| "startswith [] (p # ps) = False"
| "startswith (c # cs) (p # ps) = (c = p \<and> startswith cs ps)"

fun str_in :: "string \<Rightarrow> string \<Rightarrow> bool" where
  "str_in sub [] = (sub = [])"
| "str_in sub (c # cs) = (startswith (c # cs) sub \<or> str_in sub cs)"

text \<open>
  \<^verbatim>\<open>s.index(sub)\<close>: the least position where \<open>sub\<close> starts; Python raises
  \<^verbatim>\<open>ValueError\<close> when there is none.
\<close>

fun str_find :: "string \<Rightarrow> string \<Rightarrow> nat option" where
  "str_find [] sub = (if sub = [] then Some 0 else None)"
| "str_find (c # cs) sub =
     (if startswith (c # cs) sub then Some 0 else map_option Suc (str_find cs sub))"

definition str_index :: "string \<Rightarrow> string \<Rightarrow> error + nat" where
  "str_index s sub = (case str_find s sub of None \<Rightarrow> Inl ValueError | Some i \<Rightarrow> Inr i)"

text \<open>\<^verbatim>\<open>sep.join(xs)\<close>.\<close>

fun str_join :: "string \<Rightarrow> string list \<Rightarrow> string" where
  "str_join sep [] = []"
| "str_join sep [x] = x"
| "str_join sep (x # y # ys) = x @ sep @ str_join sep (y # ys)"

text \<open>\<^verbatim>\<open>s.split(c)\<close> for a one-character separator, and \<^verbatim>\<open>s.strip()\<close>.\<close>

fun str_split :: "char \<Rightarrow> string \<Rightarrow> string list" where
  "str_split sep [] = [[]]"
| "str_split sep (c # cs) =
     (if c = sep then [] # str_split sep cs
      else (case str_split sep cs of
              [] \<Rightarrow> [[c]]
            | w # ws \<Rightarrow> (c # w) # ws))"

definition whitespace :: string where
  "whitespace =
     [CHR 0x09, CHR 0x0A, CHR 0x0B, CHR 0x0C, CHR 0x0D, CHR 0x1C, CHR 0x1D, CHR 0x1E,
      CHR 0x1F, CHR 0x20, CHR 0x85, CHR 0xA0]"

definition isspace :: "char \<Rightarrow> bool" where
  "isspace c = (c \<in> set whitespace)"

definition str_strip :: "string \<Rightarrow> string" where
  "str_strip s = rev (dropWhile isspace (rev (dropWhile isspace s)))"

text \<open>Decimal digits; \<^verbatim>\<open>str(n)\<close> of an integer, as the f-strings render it.\<close>

definition digit_chars :: string where
  "digit_chars = ''0123456789''"

definition isdigit :: "char \<Rightarrow> bool" where
  "isdigit c = (c \<in> set digit_chars)"

definition digit_value :: "char \<Rightarrow> nat" where
  "digit_value c = length (takeWhile (\<lambda>d. d \<noteq> c) digit_chars)"

fun str_of_nat :: "nat \<Rightarrow> string" where
  "str_of_nat n =
     (if n < 10 then [digit_chars ! n]
      else str_of_nat (n div 10) @ [digit_chars ! (n mod 10)])"

definition str_of_int :: "int \<Rightarrow> string" where
  "str_of_int i = (if i < 0 then CHR ''-'' # str_of_nat (nat (- i)) else str_of_nat (nat i))"

text \<open>
  \<^verbatim>\<open>int(s)\<close> on a non-empty string of ASCII digits. CPython (3.11 and later, and the
  security releases of 3.7 to 3.10) refuses a decimal string of more than
  \<^verbatim>\<open>sys.int_info.default_max_str_digits\<close> = 4300 digits with \<^verbatim>\<open>ValueError\<close>;
  leading zeros count.
\<close>

definition default_max_str_digits :: nat where
  "default_max_str_digits = 4300"

definition decimal_value :: "string \<Rightarrow> nat" where
  "decimal_value ds = foldl (\<lambda>a c. 10 * a + digit_value c) 0 ds"

definition py_int :: "string \<Rightarrow> error + int" where
  "py_int ds =
     (if length ds > default_max_str_digits then Inl ValueError
      else Inr (int (decimal_value ds)))"

text \<open>
  \<^verbatim>\<open>sorted(xs, key=k, reverse=True)\<close> and \<^verbatim>\<open>xs.sort(key=k, reverse=True)\<close>: Python's
  sort is stable, and with \<^verbatim>\<open>reverse=True\<close> elements of equal key keep their
  original order. \<^const>\<open>sort_key\<close> is the stable insertion sort.
\<close>

definition sorted_reverse :: "('a \<Rightarrow> int) \<Rightarrow> 'a list \<Rightarrow> 'a list" where
  "sorted_reverse k xs = sort_key (\<lambda>x. - k x) xs"

subsection \<open>The two double-precision products of \<^verbatim>\<open>pattern_seed\<close>\<close>

text \<open>
  \<^verbatim>\<open>len(text) * 0.2\<close> and \<^verbatim>\<open>len(text) * 0.5\<close> are products of IEEE doubles: the
  length is converted to a double, multiplied, and the product is rounded to 53
  significant bits, ties to even. A non-negative double is kept here as its numerator
  over \<open>2 ^ 54\<close>: the literal \<^verbatim>\<open>0.2\<close> is \<open>3602879701896397 / 2 ^ 54\<close> and
  \<^verbatim>\<open>0.5\<close> is \<open>2 ^ 53 / 2 ^ 54\<close>. Python compares an \<^verbatim>\<open>int\<close> with a
  \<^verbatim>\<open>float\<close> exactly.
\<close>

fun bit_length :: "nat \<Rightarrow> nat" where
  "bit_length n = (if n = 0 then 0 else Suc (bit_length (n div 2)))"

definition round_to_double :: "nat \<Rightarrow> nat" where
  "round_to_double m =
     (let l = bit_length m in
      if l \<le> 53 then m
      else let s = l - 53; q = m div 2 ^ s; r = m mod 2 ^ s; h = 2 ^ (s - 1)
           in (if h < r \<or> (r = h \<and> odd q) then q + 1 else q) * 2 ^ s)"

definition double_0_2 :: nat where
  "double_0_2 = 3602879701896397"

definition double_0_5 :: nat where
  "double_0_5 = 2 ^ 53"

definition len_times :: "nat \<Rightarrow> nat \<Rightarrow> nat" where
  "len_times n c = round_to_double (round_to_double n * c)"

definition int_lt_double :: "nat \<Rightarrow> nat \<Rightarrow> bool" where
  "int_lt_double i d = (i * 2 ^ 54 < d)"

section \<open>Enumerations and tables\<close>

datatype Spiral =
    S1_CREATION | S2_COVENANT | S3_LAW | S4_KINGSHIP | S5_WISDOM | S6_CHRIST
  | S7_NEW_CREATION

fun spiral_value :: "Spiral \<Rightarrow> int" where
  "spiral_value S1_CREATION = 1"
| "spiral_value S2_COVENANT = 2"
| "spiral_value S3_LAW = 3"
| "spiral_value S4_KINGSHIP = 4"
| "spiral_value S5_WISDOM = 5"
| "spiral_value S6_CHRIST = 6"
| "spiral_value S7_NEW_CREATION = 7"

fun spiral_name :: "Spiral \<Rightarrow> string" where
  "spiral_name S1_CREATION = ''S1_CREATION''"
| "spiral_name S2_COVENANT = ''S2_COVENANT''"
| "spiral_name S3_LAW = ''S3_LAW''"
| "spiral_name S4_KINGSHIP = ''S4_KINGSHIP''"
| "spiral_name S5_WISDOM = ''S5_WISDOM''"
| "spiral_name S6_CHRIST = ''S6_CHRIST''"
| "spiral_name S7_NEW_CREATION = ''S7_NEW_CREATION''"

datatype Quadrant = SW | SE | NE | NW

fun quadrant_value :: "Quadrant \<Rightarrow> string" where
  "quadrant_value SW = ''SW''"
| "quadrant_value SE = ''SE''"
| "quadrant_value NE = ''NE''"
| "quadrant_value NW = ''NW''"

text \<open>The members of the enumeration, in the order Python iterates them.\<close>

definition all_quadrants :: "Quadrant list" where
  "all_quadrants = [SW, SE, NE, NW]"

record SymbolData =
  meaning :: string
  "keywords" :: "string list"
  weight :: int

text \<open>
  \<^verbatim>\<open>SYMBOL_LEXICON\<close>: a dictionary literal, iterated in insertion order, so an
  association list in the order of the source.
\<close>

definition SYMBOL_LEXICON :: "(string \<times> SymbolData) list" where
  "SYMBOL_LEXICON = [
   (''LIGHT'', \<lparr>meaning = ''revelation / order'',
      keywords = [''light'', ''lamp'', ''shine'', ''brightness'', ''dawn''],
      weight = 3\<rparr>),
   (''DARKNESS'', \<lparr>meaning = ''chaos / judgment'',
      keywords = [''darkness'', ''dark'', ''shadow'', ''night'', ''gloom''],
      weight = 3\<rparr>),
   (''WATER'', \<lparr>meaning = ''life / chaos / cleansing'',
      keywords = [''water'', ''waters'', ''sea'', ''river'', ''flood'', ''rain''],
      weight = 3\<rparr>),
   (''FIRE'', \<lparr>meaning = ''judgment / transformation'',
      keywords = [''fire'', ''flame'', ''burn'', ''consume''],
      weight = 3\<rparr>),
   (''TREE'', \<lparr>meaning = ''life / choice / growth'',
      keywords = [''tree'', ''trees'', ''branch'', ''branches''],
      weight = 2\<rparr>),
   (''GARDEN'', \<lparr>meaning = ''communion / presence'',
      keywords = [''garden'', ''eden'', ''paradise''],
      weight = 3\<rparr>),
   (''MOUNTAIN'', \<lparr>meaning = ''revelation / covenant'',
      keywords = [''mountain'', ''mount'', ''hill'', ''zion'', ''sinai''],
      weight = 3\<rparr>),
   (''WILDERNESS'', \<lparr>meaning = ''testing / exile'',
      keywords = [''wilderness'', ''desert'', ''waste''],
      weight = 2\<rparr>),
   (''DUST'', \<lparr>meaning = ''mortality'',
      keywords = [''dust'', ''ashes'', ''clay''],
      weight = 2\<rparr>),
   (''SPIRIT'', \<lparr>meaning = ''breath / empowerment'',
      keywords = [''spirit'', ''breath'', ''wind'', ''ghost''],
      weight = 3\<rparr>),
   (''TEMPLE'', \<lparr>meaning = ''presence / structure'',
      keywords = [''temple'', ''sanctuary'', ''house of god''],
      weight = 3\<rparr>),
   (''ALTAR'', \<lparr>meaning = ''sacrifice / mediation'',
      keywords = [''altar'', ''altars''],
      weight = 3\<rparr>),
   (''VEIL'', \<lparr>meaning = ''separation / access'',
      keywords = [''veil'', ''curtain'', ''vail''],
      weight = 2\<rparr>),
   (''LAMPSTAND'', \<lparr>meaning = ''illumination / Spirit'',
      keywords = [''lampstand'', ''candlestick'', ''menorah''],
      weight = 2\<rparr>),
   (''BREAD'', \<lparr>meaning = ''communion / wisdom'',
      keywords = [''bread'', ''loaves'', ''manna''],
      weight = 3\<rparr>),
   (''OIL'', \<lparr>meaning = ''anointing / Spirit'',
      keywords = [''oil'', ''anoint'', ''anointed''],
      weight = 2\<rparr>),
   (''BLOOD'', \<lparr>meaning = ''covenant / atonement'',
      keywords = [''blood'', ''bloodshed''],
      weight = 3\<rparr>),
   (''LAMB'', \<lparr>meaning = ''substitution / innocence'',
      keywords = [''lamb'', ''lambs'', ''sheep''],
      weight = 3\<rparr>),
   (''PRIEST'', \<lparr>meaning = ''mediation'',
      keywords = [''priest'', ''priests'', ''priesthood''],
      weight = 2\<rparr>),
   (''TABERNACLE'', \<lparr>meaning = ''mobile presence'',
      keywords = [''tabernacle'', ''tent'', ''dwelling''],
      weight = 2\<rparr>),
   (''KING'', \<lparr>meaning = ''authority / rule'',
      keywords = [''king'', ''kings'', ''monarch''],
      weight = 3\<rparr>),
   (''THRONE'', \<lparr>meaning = ''judgment / legitimacy'',
      keywords = [''throne'', ''thrones''],
      weight = 3\<rparr>),
   (''SCEPTER'', \<lparr>meaning = ''rule / power'',
      keywords = [''scepter'', ''sceptre'', ''rod''],
      weight = 2\<rparr>),
   (''CROWN'', \<lparr>meaning = ''honor / destiny'',
      keywords = [''crown'', ''crowns'', ''diadem''],
      weight = 2\<rparr>),
   (''SWORD'', \<lparr>meaning = ''judgment / division'',
      keywords = [''sword'', ''swords'', ''blade''],
      weight = 2\<rparr>),
   (''CITY'', \<lparr>meaning = ''people / identity'',
      keywords = [''city'', ''cities'', ''jerusalem'', ''zion''],
      weight = 2\<rparr>),
   (''HOUSE'', \<lparr>meaning = ''lineage / establishment'',
      keywords = [''house'', ''household'', ''dynasty''],
      weight = 2\<rparr>),
   (''GATE'', \<lparr>meaning = ''access / authority'',
      keywords = [''gate'', ''gates'', ''door'', ''doors''],
      weight = 2\<rparr>),
   (''PATH'', \<lparr>meaning = ''direction / discipleship'',
      keywords = [''path'', ''way'', ''ways'', ''road''],
      weight = 2\<rparr>),
   (''WINE'', \<lparr>meaning = ''joy / covenant blood'',
      keywords = [''wine'', ''drink''],
      weight = 2\<rparr>),
   (''CUP'', \<lparr>meaning = ''destiny / suffering'',
      keywords = [''cup'', ''cups''],
      weight = 2\<rparr>),
   (''VOICE'', \<lparr>meaning = ''revelation / calling'',
      keywords = [''voice'', ''voices'', ''cry''],
      weight = 2\<rparr>),
   (''HAND'', \<lparr>meaning = ''action / authority'',
      keywords = [''hand'', ''hands''],
      weight = 1\<rparr>),
   (''HEART'', \<lparr>meaning = ''intention / covenant interiorization'',
      keywords = [''heart'', ''hearts''],
      weight = 2\<rparr>),
   (''SEED'', \<lparr>meaning = ''promise / future'',
      keywords = [''seed'', ''seeds'', ''offspring''],
      weight = 3\<rparr>),
   (''EGYPT'', \<lparr>meaning = ''bondage'',
      keywords = [''egypt'', ''egyptian''],
      weight = 2\<rparr>),
   (''BABYLON'', \<lparr>meaning = ''judgment / confusion'',
      keywords = [''babylon'', ''babylonian'', ''babel''],
      weight = 2\<rparr>),
   (''EXILE'', \<lparr>meaning = ''fracture'',
      keywords = [''exile'', ''exiled'', ''captivity'', ''captive''],
      weight = 2\<rparr>),
   (''RETURN'', \<lparr>meaning = ''restoration'',
      keywords = [''return'', ''returned'', ''restore''],
      weight = 2\<rparr>),
   (''GATHERING'', \<lparr>meaning = ''redemption'',
      keywords = [''gather'', ''gathered'', ''gathering''],
      weight = 2\<rparr>),
   (''CROSS'', \<lparr>meaning = ''death / obedience'',
      keywords = [''cross'', ''crucify'', ''crucified''],
      weight = 3\<rparr>),
   (''RESURRECTION'', \<lparr>meaning = ''new creation'',
      keywords = [''resurrection'', ''risen'', ''rose'', ''raised''],
      weight = 3\<rparr>),
   (''SHEPHERD'', \<lparr>meaning = ''guidance'',
      keywords = [''shepherd'', ''shepherds'', ''pastor''],
      weight = 2\<rparr>),
   (''BRIDE'', \<lparr>meaning = ''people of God'',
      keywords = [''bride'', ''bridegroom'', ''marriage'', ''wedding''],
      weight = 2\<rparr>),
   (''SON'', \<lparr>meaning = ''identity / inheritance'',
      keywords = [''son'', ''sons'', ''child''],
      weight = 2\<rparr>),
   (''FIG'', \<lparr>meaning = ''covenant fruit / exposure'',
      keywords = [''fig'', ''figs''],
      weight = 2\<rparr>),
   (''OLIVE'', \<lparr>meaning = ''anointing / endurance / Spirit'',
      keywords = [''olive'', ''olives'', ''olivet''],
      weight = 2\<rparr>),
   (''VINE'', \<lparr>meaning = ''dependence / communion'',
      keywords = [''vine'', ''vines'', ''vineyard''],
      weight = 3\<rparr>),
   (''FRUIT'', \<lparr>meaning = ''visible outcome'',
      keywords = [''fruit'', ''fruits'', ''harvest''],
      weight = 2\<rparr>),
   (''THORNS'', \<lparr>meaning = ''curse / resistance'',
      keywords = [''thorns'', ''thistles'', ''briars''],
      weight = 2\<rparr>)]"

record QuadrantIndicator =
  "keywords" :: "string list"
  situations :: "string list"
  tone :: string

text \<open>\<^verbatim>\<open>QUADRANT_INDICATORS\<close>, in the order of the dictionary literal.\<close>

definition QUADRANT_INDICATORS :: "(Quadrant \<times> QuadrantIndicator) list" where
  "QUADRANT_INDICATORS = [
   (SW, \<lparr>QuadrantIndicator.keywords =
            [''grave'', ''pit'', ''sheol'', ''death'', ''destroyed'', ''consumed'',
             ''darkness'', ''deep'', ''wrath'', ''curse'', ''famine'', ''plague'',
             ''finished'', ''gave up'', ''die'', ''perish''],
         situations = [''siege'', ''defeat'', ''lament'', ''catastrophe''],
         tone = ''despairing / overwhelmed''\<rparr>),
   (SE, \<lparr>QuadrantIndicator.keywords =
            [''sin'', ''idolatry'', ''rebellion'', ''transgression'', ''adultery'',
             ''division'', ''scattered'', ''broken'', ''forsaken'', ''betray''],
         situations = [''covenant breaking'', ''betrayal'', ''turning aside''],
         tone = ''accusatory / tense / warning''\<rparr>),
   (NE, \<lparr>QuadrantIndicator.keywords =
            [''law'', ''commandment'', ''statute'', ''teaching'', ''wisdom'',
             ''proverb'', ''prophecy'', ''thus saith'', ''vision'', ''behold'',
             ''looked'', ''revelation''],
         situations = [''God speaking'', ''law given'', ''teaching'', ''explaining''],
         tone = ''clarifying / didactic''\<rparr>),
   (NW, \<lparr>QuadrantIndicator.keywords =
            [''restore'', ''heal'', ''return'', ''gather'', ''rebuild'', ''plant'',
             ''comfort'', ''rejoice'', ''new'', ''renewed'', ''inheritance'',
             ''resurrection'', ''breath'', ''live'', ''life''],
         situations = [''return from exile'', ''healing'', ''resurrection'', ''fulfillment''],
         tone = ''hopeful / resolved / celebratory''\<rparr>)]"

section \<open>Results of the stages\<close>

text \<open>
  The dataclasses of the source, and a record for each dictionary with fixed keys that
  the stages build. The records come before the stages, so that a stage and the field of
  \<open>TelosRun\<close> of the same name can both be written: the plain name is the stage, the
  field is \<open>TelosRun.gravity_sync\<close> and so on.
\<close>

record QuadScore =
  score :: int
  "keywords" :: "string list"

record SegmentScore =
  segment :: string
  quadrant :: Quadrant
  scores :: "(Quadrant \<times> QuadScore) list"

record Evidence =
  quadrant :: string
  reason :: string

record QuadrantMapping =
  primary_quadrant :: Quadrant
  secondary_quadrant :: "Quadrant option"
  movement :: string
  evidence :: "Evidence list"
  segment_scores :: "SegmentScore list"

record PatternSeed =
  symbol :: string
  local_role :: string
  support :: "string list"
  score :: int
  frequency :: int
  structural_position :: int
  theological_weight :: int

record SpiralRole =
  spiral :: int
  role :: string
  example :: string

record Stage =
  position :: string
  reason :: string

record EchoTrace =
  symbol :: string
  spiral_roles :: "SpiralRole list"
  overall_arc :: string
  current_passage_stage :: Stage

record GravitySync =
  score :: int
  explanation :: string
  christ_patterns :: "string list"

record Comp435 =
  has_pattern :: bool
  mapping :: "string option"
  confidence :: string
  stages :: "(string \<times> bool) list option"

record UrimThummim =
  urim :: bool
  thummim :: bool
  "interpretation" :: string

record FractalFilter =
  classification :: string
  reasoning :: string
  checklist_results :: "(string \<times> bool) list"

record TelosRun =
  reference :: string
  spiral :: Spiral
  quadrants :: QuadrantMapping
  pattern_seeds :: "PatternSeed list"
  echo_traces :: "EchoTrace list"
  gravity_sync :: GravitySync
  comp_435 :: Comp435
  urim_thummim :: UrimThummim
  fractal_filter :: FractalFilter
  theological_summary :: string

text \<open>The dictionary \<^verbatim>\<open>pattern_seed\<close> builds for every symbol that matched.\<close>

record Candidate =
  symbol :: string
  score :: int
  frequency :: int
  structural_position :: int
  theological_weight :: int
  matches :: "string list"
  meaning :: string

text \<open>
  Parameters that would clash with a field are shortened: \<open>rf\<close> is the source's
  \<^verbatim>\<open>reference\<close>, \<open>symb\<close> its \<^verbatim>\<open>symbol\<close>, \<open>seg\<close> its \<^verbatim>\<open>segment\<close>, \<open>ms\<close> its
  \<^verbatim>\<open>matches\<close>, \<open>sp\<close> a spiral, \<open>quads\<close> the quadrant mapping.
\<close>

section \<open>Spiral assignment\<close>

text \<open>
  \<^verbatim>\<open>re.search(r'(\d+):', reference)\<close>: the leftmost position where one or more digits
  and then a colon stand. \<^verbatim>\<open>\d+\<close> is greedy, and giving digits back cannot help (the
  character after a shorter run is a digit, not the colon), so a match at a position
  takes the whole run of digits there. The result is group 1.
\<close>

definition match_chapter_at :: "string \<Rightarrow> string option" where
  "match_chapter_at s =
     (let ds = takeWhile isdigit s in
      if ds \<noteq> [] \<and> startswith (dropWhile isdigit s) '':'' then Some ds else None)"

fun re_search_chapter :: "string \<Rightarrow> string option" where
  "re_search_chapter [] = None"
| "re_search_chapter (c # cs) =
     (case match_chapter_at (c # cs) of
        Some ds \<Rightarrow> Some ds
      | None \<Rightarrow> re_search_chapter cs)"

text \<open>\<^verbatim>\<open>any(b in ref_lower for b in books)\<close>.\<close>

definition any_in :: "string list \<Rightarrow> string \<Rightarrow> bool" where
  "any_in books ref_lower = list_ex (\<lambda>b. str_in b ref_lower) books"

text \<open>The lists of book names that \<^verbatim>\<open>assign_spiral\<close> writes in place, in its order.\<close>

definition covenant_books :: "string list" where
  "covenant_books = [''exodus'']"

definition law_books :: "string list" where
  "law_books = [''leviticus'', ''numbers'', ''deuteronomy'']"

definition kingship_books :: "string list" where
  "kingship_books = [''joshua'', ''judges'', ''ruth'', ''samuel'', ''kings'']"

definition wisdom_books :: "string list" where
  "wisdom_books = [''job'', ''psalm'', ''proverb'', ''ecclesiastes'',
                   ''song'', ''isaiah'', ''jeremiah'', ''lamentations'',
                   ''ezekiel'', ''daniel'', ''hosea'', ''joel'', ''amos'',
                   ''obadiah'', ''jonah'', ''micah'', ''nahum'', ''habakkuk'',
                   ''zephaniah'', ''haggai'', ''zechariah'', ''malachi'']"

definition gospel_books :: "string list" where
  "gospel_books = [''matthew'', ''mark'', ''luke'', ''john'']"

definition john_epistles :: "string list" where
  "john_epistles = [''1 john'', ''2 john'', ''3 john'']"

definition new_creation_books :: "string list" where
  "new_creation_books = [''acts'', ''romans'', ''corinthians'', ''galatians'',
                         ''ephesians'', ''philippians'', ''colossians'',
                         ''thessalonians'', ''timothy'', ''titus'', ''philemon'',
                         ''hebrews'', ''james'', ''peter'', ''john'', ''jude'',
                         ''revelation'']"

definition assign_spiral :: "string \<Rightarrow> error + Spiral" where
  "assign_spiral rf =
     (let ref_lower = str_lower rf in
      if str_in ''genesis'' ref_lower then
        (case re_search_chapter rf of
           Some group1 \<Rightarrow>
             (case py_int group1 of
                Inl e \<Rightarrow> Inl e
              | Inr chapter \<Rightarrow>
                  if chapter \<le> 11 then Inr S1_CREATION else Inr S2_COVENANT)
         | None \<Rightarrow> Inr S2_COVENANT)
      else if any_in covenant_books ref_lower then Inr S2_COVENANT
      else if any_in law_books ref_lower then Inr S3_LAW
      else if any_in kingship_books ref_lower then Inr S4_KINGSHIP
      else if any_in wisdom_books ref_lower then Inr S5_WISDOM
      else if any_in gospel_books ref_lower \<and> str_in ''john'' ref_lower \<and>
              \<not> any_in john_epistles ref_lower
      then Inr S6_CHRIST
      else if any_in new_creation_books ref_lower then Inr S7_NEW_CREATION
      else Inr S6_CHRIST)"

section \<open>QUAD-MAP\<close>

text \<open>\<^verbatim>\<open>xs[i]\<close>, and \<^verbatim>\<open>max(xs, key=k)\<close>, which returns the first greatest element.\<close>

definition py_nth :: "'a list \<Rightarrow> nat \<Rightarrow> error + 'a" where
  "py_nth xs i = (if i < length xs then Inr (xs ! i) else Inl IndexError)"

fun py_max_key :: "('a \<Rightarrow> int) \<Rightarrow> 'a list \<Rightarrow> error + 'a" where
  "py_max_key k [] = Inl ValueError"
| "py_max_key k (x # xs) = Inr (foldl (\<lambda>best y. if k best < k y then y else best) x xs)"

text \<open>A loop whose body can raise: the first exception ends it.\<close>

fun map_result :: "('a \<Rightarrow> error + 'b) \<Rightarrow> 'a list \<Rightarrow> error + 'b list" where
  "map_result f [] = Inr []"
| "map_result f (x # xs) =
     (case f x of
        Inl e \<Rightarrow> Inl e
      | Inr y \<Rightarrow> (case map_result f xs of Inl e \<Rightarrow> Inl e | Inr ys \<Rightarrow> Inr (y # ys)))"

definition score_quadrant :: "string \<Rightarrow> QuadrantIndicator \<Rightarrow> QuadScore" where
  "score_quadrant seg_lower indicators =
     (let matched_keywords =
            filter (\<lambda>keyword. str_in keyword seg_lower) (QuadrantIndicator.keywords indicators)
      in \<lparr>QuadScore.score = min (int (length matched_keywords)) 3,
          QuadScore.keywords = matched_keywords\<rparr>)"

definition score_segment :: "string \<Rightarrow> error + SegmentScore" where
  "score_segment seg =
     (let seg_lower = str_lower seg;
          scs = map (\<lambda>(quad, indicators). (quad, score_quadrant seg_lower indicators))
                  QUADRANT_INDICATORS
      in case py_max_key (\<lambda>x. QuadScore.score (snd x)) scs of
           Inl e \<Rightarrow> Inl e
         | Inr best \<Rightarrow>
             Inr \<lparr>segment = (if length seg > 50 then take 50 seg @ ''...'' else seg),
                  SegmentScore.quadrant = fst best,
                  scores = scs\<rparr>)"

definition increment :: "Quadrant \<Rightarrow> (Quadrant \<times> int) list \<Rightarrow> (Quadrant \<times> int) list" where
  "increment q counts = map (\<lambda>(k, v). if k = q then (k, v + 1) else (k, v)) counts"

definition arrow :: string where
  "arrow = [CHR 0xE2, CHR 0x86, CHR 0x92]"

definition compress_movement :: "Quadrant list \<Rightarrow> string" where
  "compress_movement sequence =
     (case sequence of
        [] \<Rightarrow> ''Unknown''
      | q0 # qs \<Rightarrow>
          (let compressed =
                 foldl (\<lambda>compressed q. if q \<noteq> last compressed then compressed @ [q]
                                         else compressed) [q0] qs
           in if length compressed = 1 then ''Static '' @ quadrant_value (hd compressed)
              else str_join arrow (map quadrant_value compressed)))"

text \<open>
  The evidence loop over \<^verbatim>\<open>sorted_quads\<close>; \<^verbatim>\<open>examples[0]['scores'][quad]\<close> is a
  dictionary lookup, so \<^verbatim>\<open>KeyError\<close> when the key is missing.
\<close>

fun collect_evidence ::
  "SegmentScore list \<Rightarrow> (Quadrant \<times> int) list \<Rightarrow> error + Evidence list" where
  "collect_evidence segs [] = Inr []"
| "collect_evidence segs ((quad, count) # rest) =
     (if count > 0 then
        (case filter (\<lambda>s. SegmentScore.quadrant s = quad) segs of
           [] \<Rightarrow> collect_evidence segs rest
         | ex0 # _ \<Rightarrow>
             (case map_of (scores ex0) quad of
                None \<Rightarrow> Inl KeyError
              | Some sc \<Rightarrow>
                  (let kws = take 3 (QuadScore.keywords sc);
                       ev = \<lparr>Evidence.quadrant = quadrant_value quad,
                             Evidence.reason =
                               (if kws \<noteq> [] then ''Keywords: '' @ str_join '', '' kws
                                else ''Tonal match'')\<rparr>
                   in case collect_evidence segs rest of
                        Inl e \<Rightarrow> Inl e
                      | Inr evs \<Rightarrow> Inr (ev # evs))))
      else collect_evidence segs rest)"

definition quad_map :: "string \<Rightarrow> error + QuadrantMapping" where
  "quad_map text =
     (let stripped = filter (\<lambda>s. s \<noteq> []) (map str_strip (str_split CHR ''.'' text));
          segments = (if stripped = [] then [text] else stripped)
      in case map_result score_segment segments of
           Inl e \<Rightarrow> Inl e
         | Inr segs \<Rightarrow>
             (let quad_counts =
                    foldl (\<lambda>counts s. increment (SegmentScore.quadrant s) counts)
                      (map (\<lambda>q. (q, 0)) all_quadrants) segs;
                  sorted_quads = sorted_reverse snd quad_counts
              in case py_nth sorted_quads 0 of
                   Inl e \<Rightarrow> Inl e
                 | Inr first \<Rightarrow>
                     (case py_nth sorted_quads 1 of
                        Inl e \<Rightarrow> Inl e
                      | Inr second \<Rightarrow>
                          (let primary = fst first;
                               secondary = (if snd second > 0 then Some (fst second) else None);
                               mv = compress_movement (map SegmentScore.quadrant segs)
                           in case collect_evidence segs sorted_quads of
                                Inl e \<Rightarrow> Inl e
                              | Inr evs \<Rightarrow>
                                  Inr \<lparr>primary_quadrant = primary,
                                       secondary_quadrant = secondary,
                                       movement = mv,
                                       evidence = evs,
                                       segment_scores = segs\<rparr>))))"

section \<open>PATTERN-SEED\<close>

text \<open>
  The body of \<^verbatim>\<open>if matches:\<close> in the loop over the lexicon. \<^verbatim>\<open>matches[0]\<close> and
  \<^verbatim>\<open>text_lower.index\<close> are the two places that could raise.
\<close>

definition score_candidate ::
  "string \<Rightarrow> string \<Rightarrow> string \<Rightarrow> SymbolData \<Rightarrow> string list \<Rightarrow> error + Candidate" where
  "score_candidate text text_lower symb data ms =
     (let freq_score = min (int (length ms)) 3 in
      case ms of
        [] \<Rightarrow> Inl IndexError
      | m0 # _ \<Rightarrow>
          (case str_index text_lower m0 of
             Inl e \<Rightarrow> Inl e
           | Inr first_match_pos \<Rightarrow>
               (let struct_score =
                      (if int_lt_double first_match_pos (len_times (length text) double_0_2)
                       then 3
                       else if int_lt_double first_match_pos
                                 (len_times (length text) double_0_5)
                       then 2
                       else 1);
                    theo_score = weight data;
                    unique_score = (if length ms \<ge> 3 then 1 else 0);
                    total_score = freq_score + struct_score + theo_score + unique_score
                in Inr \<lparr>Candidate.symbol = symb,
                        Candidate.score = total_score,
                        Candidate.frequency = freq_score,
                        Candidate.structural_position = struct_score,
                        Candidate.theological_weight = theo_score,
                        matches = ms,
                        Candidate.meaning = SymbolData.meaning data\<rparr>)))"

fun extract_candidates ::
  "string \<Rightarrow> string \<Rightarrow> (string \<times> SymbolData) list \<Rightarrow> error + Candidate list" where
  "extract_candidates text text_lower [] = Inr []"
| "extract_candidates text text_lower ((symb, data) # rest) =
     (let ms = filter (\<lambda>keyword. str_in keyword text_lower) (SymbolData.keywords data) in
      if ms \<noteq> [] then
        (case score_candidate text text_lower symb data ms of
           Inl e \<Rightarrow> Inl e
         | Inr c \<Rightarrow>
             (case extract_candidates text text_lower rest of
                Inl e \<Rightarrow> Inl e
              | Inr cs \<Rightarrow> Inr (c # cs)))
      else extract_candidates text text_lower rest)"

definition make_seed :: "Candidate \<Rightarrow> PatternSeed" where
  "make_seed c =
     (let role = Candidate.meaning c @ '' (appears as: ''
                         @ str_join '', '' (take 2 (matches c)) @ '')'';
          sup = [''Mentioned '' @ str_of_nat (length (matches c)) @ '' time(s)'',
                 ''Theological weight: '' @ str_of_int (Candidate.theological_weight c)
                   @ ''/3'']
      in \<lparr>PatternSeed.symbol = Candidate.symbol c,
          local_role = role,
          support = sup,
          PatternSeed.score = Candidate.score c,
          PatternSeed.frequency = Candidate.frequency c,
          PatternSeed.structural_position = Candidate.structural_position c,
          PatternSeed.theological_weight = Candidate.theological_weight c\<rparr>)"

definition select_seeds :: "Candidate list \<Rightarrow> PatternSeed list" where
  "select_seeds candidates =
     map make_seed
       (filter (\<lambda>c. Candidate.score c \<ge> 4) (take 3 (sorted_reverse Candidate.score candidates)))"

definition pattern_seed :: "string \<Rightarrow> error + PatternSeed list" where
  "pattern_seed text =
     (let text_lower = str_lower text in
      case extract_candidates text text_lower SYMBOL_LEXICON of
        Inl e \<Rightarrow> Inl e
      | Inr candidates \<Rightarrow> Inr (select_seeds candidates))"

section \<open>ECHO-TRACE\<close>

text \<open>The dictionary \<^verbatim>\<open>roles_map\<close> of \<^verbatim>\<open>_get_symbol_spiral_roles\<close>.\<close>

definition roles_map :: "(string \<times> SpiralRole list) list" where
  "roles_map = [
   (''WATER'', [
      \<lparr>SpiralRole.spiral = 1, role = ''chaos waters separated, flood judgment'',
       example = ''Gen 1:2; Gen 6-9''\<rparr>,
      \<lparr>SpiralRole.spiral = 2, role = ''Red Sea deliverance, testing waters'',
       example = ''Exod 14; Exod 17''\<rparr>,
      \<lparr>SpiralRole.spiral = 3, role = ''ritual washings, purity'',
       example = ''Lev 11-15''\<rparr>,
      \<lparr>SpiralRole.spiral = 4, role = ''drought/blessing cycles'',
       example = ''1 Kings 17-18''\<rparr>,
      \<lparr>SpiralRole.spiral = 5, role = ''rivers of life promised'',
       example = ''Ezek 47; Ps 46''\<rparr>,
      \<lparr>SpiralRole.spiral = 6, role = ''living water offered by Christ'',
       example = ''John 4; John 7''\<rparr>,
      \<lparr>SpiralRole.spiral = 7, role = ''river of life from throne'',
       example = ''Rev 22''\<rparr>]),
   (''SPIRIT'', [
      \<lparr>SpiralRole.spiral = 1, role = ''hovering over chaos, creative breath'',
       example = ''Gen 1:2''\<rparr>,
      \<lparr>SpiralRole.spiral = 2, role = ''selective empowerment'',
       example = ''Num 11''\<rparr>,
      \<lparr>SpiralRole.spiral = 3, role = ''linked to prophecy'',
       example = ''Deut 34''\<rparr>,
      \<lparr>SpiralRole.spiral = 4, role = ''empowering kings/prophets'',
       example = ''1 Sam 16''\<rparr>,
      \<lparr>SpiralRole.spiral = 5, role = ''promised future outpouring'',
       example = ''Ezek 36-37; Joel 2''\<rparr>,
      \<lparr>SpiralRole.spiral = 6, role = ''descends on Christ, promised to believers'',
       example = ''Matt 3; John 14-16''\<rparr>,
      \<lparr>SpiralRole.spiral = 7, role = ''poured out on church'',
       example = ''Acts 2; Rom 8''\<rparr>]),
   (''LAMB'', [
      \<lparr>SpiralRole.spiral = 1, role = (''Abel'' @ [CHR 0x27] @ ''s offering''),
       example = ''Gen 4''\<rparr>,
      \<lparr>SpiralRole.spiral = 2, role = ''Passover lamb'',
       example = ''Exod 12''\<rparr>,
      \<lparr>SpiralRole.spiral = 3, role = ''daily sacrifices'',
       example = ''Lev 1-7''\<rparr>,
      \<lparr>SpiralRole.spiral = 4, role = ''temple system'',
       example = ''1 Kings 8''\<rparr>,
      \<lparr>SpiralRole.spiral = 5, role = ''led to slaughter prophecy'',
       example = ''Isa 53''\<rparr>,
      \<lparr>SpiralRole.spiral = 6, role = (''John'' @ [CHR 0x27] @ ''s '' @ [CHR 0x27] @ ''Lamb of God'' @ [CHR 0x27]),
       example = ''John 1:29''\<rparr>,
      \<lparr>SpiralRole.spiral = 7, role = ''Lamb on throne'',
       example = ''Rev 5''\<rparr>]),
   (''DEFAULT'', [
      \<lparr>SpiralRole.spiral = 1, role = ''prototype appearance'',
       example = ''Genesis''\<rparr>,
      \<lparr>SpiralRole.spiral = 2, role = ''covenant context'',
       example = ''Exodus''\<rparr>,
      \<lparr>SpiralRole.spiral = 3, role = ''law framework'',
       example = ''Leviticus''\<rparr>,
      \<lparr>SpiralRole.spiral = 4, role = ''kingdom application'',
       example = ''Kings''\<rparr>,
      \<lparr>SpiralRole.spiral = 5, role = ''wisdom/prophetic development'',
       example = ''Prophets''\<rparr>,
      \<lparr>SpiralRole.spiral = 6, role = ''Christ fulfillment'',
       example = ''Gospels''\<rparr>,
      \<lparr>SpiralRole.spiral = 7, role = ''church/new creation'',
       example = ''Revelation''\<rparr>])]"

text \<open>
  \<^verbatim>\<open>roles_map.get(symbol, roles_map["DEFAULT"])\<close>. The default is looked up before the
  call, so a missing \<^verbatim>\<open>"DEFAULT"\<close> key would raise.
\<close>

definition get_symbol_spiral_roles :: "string \<Rightarrow> error + SpiralRole list" where
  "get_symbol_spiral_roles symb =
     (case map_of roles_map ''DEFAULT'' of
        None \<Rightarrow> Inl KeyError
      | Some dflt \<Rightarrow> (case map_of roles_map symb of Some rs \<Rightarrow> Inr rs | None \<Rightarrow> Inr dflt))"

definition derive_symbol_arc :: "string \<Rightarrow> SpiralRole list \<Rightarrow> string" where
  "derive_symbol_arc symb roles =
     (let early = (if length roles > 0 then role (roles ! 0) else ''prototype'');
          mid = (if length roles > 3 then role (roles ! 3) else ''development'');
          late = (if length roles > 6 then role (roles ! 6) else ''fulfillment'')
      in symb @ '' moves from '' @ early @ '' '' @ arrow @ '' '' @ mid @ '' '' @ arrow
           @ '' '' @ late)"

definition place_on_arc :: "string \<Rightarrow> Spiral \<Rightarrow> SpiralRole list \<Rightarrow> Stage" where
  "place_on_arc symb current_spiral roles =
     (let spiral_num = spiral_value current_spiral;
          pos = (if spiral_num \<le> 2 then ''Early-stage / Prototype''
                 else if spiral_num \<le> 4 then ''Mid-stage / Development''
                 else if spiral_num = 5 then ''Prophetic promise''
                 else if spiral_num = 6 then ''Christ fulfillment''
                 else ''Church application / New Creation'');
          role_data = find (\<lambda>r. SpiralRole.spiral r = spiral_num) roles;
          rsn = (case role_data of Some r \<Rightarrow> role r | None \<Rightarrow> ''Standard progression'')
      in \<lparr>position = pos, Stage.reason = rsn\<rparr>)"

definition echo_trace :: "string \<Rightarrow> Spiral \<Rightarrow> error + EchoTrace" where
  "echo_trace symb current_spiral =
     (case get_symbol_spiral_roles symb of
        Inl e \<Rightarrow> Inl e
      | Inr roles \<Rightarrow>
          Inr \<lparr>EchoTrace.symbol = symb,
               spiral_roles = roles,
               overall_arc = derive_symbol_arc symb roles,
               current_passage_stage = place_on_arc symb current_spiral roles\<rparr>)"

section \<open>GRAVITY-SYNC\<close>

definition direct_christ :: "string list" where
  "direct_christ = [''crucif'', ''cross'', ''finished'', ''resurrection'', ''risen'']"

definition strong_types :: "string list" where
  "strong_types = [''lamb'', ''blood'', ''sacrifice'', ''altar'', ''priest'', ''atonement'']"

definition light_hints :: "string list" where
  "light_hints = [''seed'', ''crown'', ''king'', ''son'', ''shepherd'']"

definition gravity_sync :: "string \<Rightarrow> PatternSeed list \<Rightarrow> GravitySync" where
  "gravity_sync text seeds =
     (let text_lower = str_lower text;
          found3 = filter (\<lambda>pattern. str_in pattern text_lower) direct_christ
      in if found3 \<noteq> [] then
           \<lparr>GravitySync.score = 3,
            explanation = ''Direct Christ event present'',
            christ_patterns = found3\<rparr>
         else
           let found2 =
                 map PatternSeed.symbol
                   (filter (\<lambda>seed. str_lower (PatternSeed.symbol seed) \<in> set strong_types) seeds)
           in if found2 \<noteq> [] then
                \<lparr>GravitySync.score = 2,
                 explanation = ''Strong sacrificial typology present'',
                 christ_patterns = found2\<rparr>
              else
                let found1 =
                      map PatternSeed.symbol
                        (filter (\<lambda>seed. str_lower (PatternSeed.symbol seed) \<in> set light_hints)
                           seeds)
                in if found1 \<noteq> [] then
                     \<lparr>GravitySync.score = 1,
                      explanation = ''Light messianic hints present'',
                      christ_patterns = found1\<rparr>
                   else
                     \<lparr>GravitySync.score = 0,
                      explanation = ''No clear Christ-pattern detected'',
                      christ_patterns = []\<rparr>)"

section \<open>COMP-435\<close>

definition stage_4_words :: "string list" where
  "stage_4_words = [''without'', ''empty'', ''nothing'', ''darkness'', ''void'', ''lack'',
                    ''toil'', ''night'', ''labor'']"

definition stage_3_words :: "string list" where
  "stage_3_words = [''god said'', ''lord said'', ''commanded'', ''spoke'', ''word'',
                    ''thus saith'', ''behold'']"

definition stage_5_words :: "string list" where
  "stage_5_words = [''filled'', ''overflow'', ''abundance'', ''multiply'', ''blessed'',
                    ''feast'', ''rest'', ''rejoice'', ''new'']"

definition comp_435_mapping :: string where
  "comp_435_mapping =
     ''4: chaos/lack '' @ arrow @ '' 3: divine word/act '' @ arrow @ '' 5: grace/overflow''"

definition comp_435 :: "string \<Rightarrow> Comp435" where
  "comp_435 text =
     (let text_lower = str_lower text;
          has_stage_4 = list_ex (\<lambda>w. str_in w text_lower) stage_4_words;
          has_stage_3 = list_ex (\<lambda>w. str_in w text_lower) stage_3_words;
          has_stage_5 = list_ex (\<lambda>w. str_in w text_lower) stage_5_words;
          has = (has_stage_4 \<and> has_stage_3 \<and> has_stage_5)
      in if has then
           \<lparr>has_pattern = has,
            mapping = Some comp_435_mapping,
            confidence = ''Medium'',
            stages = Some [(''stage_4'', has_stage_4), (''stage_3'', has_stage_3),
                           (''stage_5'', has_stage_5)]\<rparr>
         else
           \<lparr>has_pattern = has, mapping = None, confidence = ''Low'', stages = None\<rparr>)"

section \<open>URIM and THUMMIM\<close>

text \<open>
  \<^verbatim>\<open>avg_appearances\<close> is the double nearest to the quotient of two integers; compared
  with 5 it decides as the exact quotient does (the quotient of a sum by a count
  below \<open>2 ^ 51\<close> is either at least 5 or at least \<open>1 / count\<close> below it). The model
  compares the integers.
\<close>

definition urim_thummim ::
  "PatternSeed list \<Rightarrow> EchoTrace list \<Rightarrow> GravitySync \<Rightarrow> UrimThummim" where
  "urim_thummim seeds traces gravity =
     (let u = (if length traces > 0
               then 5 * length traces \<le> sum_list (map (\<lambda>t. length (spiral_roles t)) traces)
               else False);
          t = (GravitySync.score gravity \<ge> 2);
          interp = (if u \<and> t then ''Fully alive, coherent, and completed spiral''
                    else if u \<and> \<not> t then ''Real pattern but still open / unresolved''
                    else if \<not> u \<and> t then ''Sealed mystery; not fully revealed''
                    else ''Likely false spiral or over-interpretation'')
      in \<lparr>urim = u, thummim = t, interpretation = interp\<rparr>)"

section \<open>FRACTAL-FILTER\<close>

text \<open>The checklist dictionary, in insertion order.\<close>

definition fractal_checklist :: "PatternSeed list \<Rightarrow> EchoTrace list \<Rightarrow> (string \<times> bool) list" where
  "fractal_checklist seeds traces =
     [(''echo_density'',
         length traces > 0 \<and> list_all (\<lambda>t. length (spiral_roles t) \<ge> 3) traces),
      (''cross_spiral_reach'',
         length traces > 0 \<and> list_ex (\<lambda>t. length (spiral_roles t) \<ge> 5) traces),
      (''theological_load'',
         list_ex (\<lambda>seed. PatternSeed.theological_weight seed \<ge> 2) seeds),
      (''controls'', length seeds \<ge> 2),
      (''bidirectional'', length seeds > 0)]"

definition fractal_filter :: "PatternSeed list \<Rightarrow> EchoTrace list \<Rightarrow> FractalFilter" where
  "fractal_filter seeds traces =
     (let checklist = fractal_checklist seeds traces;
          satisfied = length (filter (\<lambda>v. v) (map snd checklist))
      in if satisfied \<ge> 3 then
           \<lparr>classification = ''Fractal'',
            reasoning = ''Pattern satisfies '' @ str_of_nat satisfied
                          @ ''/5 fractal criteria'',
            checklist_results = checklist\<rparr>
         else
           \<lparr>classification = ''Likely Feedback'',
            reasoning = ''Only '' @ str_of_nat satisfied
                          @ ''/5 criteria satisfied; likely over-interpretation'',
            checklist_results = checklist\<rparr>)"

section \<open>Summary and the master pipeline\<close>

definition generate_summary ::
  "Spiral \<Rightarrow> QuadrantMapping \<Rightarrow> PatternSeed list \<Rightarrow> GravitySync \<Rightarrow> string" where
  "generate_summary sp quads seeds gravity =
     (let seed_names = map PatternSeed.symbol (take 3 seeds);
          s1 = ''This passage sits in '' @ spiral_name sp @ '', '';
          s2 = s1 @ ''moving through '' @ movement quads @ ''. '';
          s3 = (if seed_names \<noteq> []
                then s2 @ ''The dominant symbols are '' @ str_join '', '' seed_names @ ''. ''
                else s2)
      in if GravitySync.score gravity = 3
         then s3 @ ''This directly reveals Christ'' @ [CHR 0x27] @ ''s redemptive work.''
         else if GravitySync.score gravity = 2
         then s3 @ ''This strongly foreshadows the Cross pattern through sacrificial typology.''
         else if GravitySync.score gravity = 1
         then s3 @ ''This hints at the larger narrative arc pointing toward Christ.''
         else s3 @ ''This passage contributes to the broader biblical narrative.'')"

definition telos_run :: "string \<Rightarrow> string \<Rightarrow> error + TelosRun" where
  "telos_run rf text =
     (case assign_spiral rf of
        Inl e \<Rightarrow> Inl e
      | Inr sp \<Rightarrow>
     (case quad_map text of
        Inl e \<Rightarrow> Inl e
      | Inr quads \<Rightarrow>
     (case pattern_seed text of
        Inl e \<Rightarrow> Inl e
      | Inr seeds \<Rightarrow>
     (case map_result (\<lambda>seed. echo_trace (PatternSeed.symbol seed) sp) (take 3 seeds) of
        Inl e \<Rightarrow> Inl e
      | Inr traces \<Rightarrow>
          (let gravity = gravity_sync text seeds;
               comp435 = comp_435 text;
               ut = urim_thummim seeds traces gravity;
               ff = fractal_filter seeds traces;
               summary = generate_summary sp quads seeds gravity
           in Inr \<lparr>reference = rf,
                   TelosRun.spiral = sp,
                   quadrants = quads,
                   pattern_seeds = seeds,
                   echo_traces = traces,
                   TelosRun.gravity_sync = gravity,
                   TelosRun.comp_435 = comp435,
                   TelosRun.urim_thummim = ut,
                   TelosRun.fractal_filter = ff,
                   theological_summary = summary\<rparr>)))))"

definition analyze_passage :: "string \<Rightarrow> string \<Rightarrow> error + TelosRun" where
  "analyze_passage rf text = telos_run rf text"

section \<open>Properties\<close>

declare bit_length.simps [simp del]

subsection \<open>Strings\<close>

lemma filter_nonempty_iff: "(filter P xs \<noteq> []) = list_ex P xs"
  by (induction xs) auto

lemmas lower_defs =
  str_lower_def char_lower_def ascii_uppercase_def ascii_lowercase_def
  latin1_uppercase_def latin1_lowercase_def

subsection \<open>GRAVITY-SYNC\<close>

text \<open>
  Claim C1. For every passage text and every list of seeds, the score of
  \<^verbatim>\<open>gravity_sync\<close> is one of 0, 1, 2, 3, and the tiers cascade: a text that (lowered)
  contains one of the direct keywords scores 3, whatever the seeds are; otherwise a seed
  whose lowered symbol is a strong type gives 2; otherwise a seed whose lowered symbol is
  a light hint gives 1; otherwise the score is 0.
\<close>

theorem gravity_sync_cascade:
  "GravitySync.score (gravity_sync text seeds) \<in> {0, 1, 2, 3} \<and>
   GravitySync.score (gravity_sync text seeds) =
     (if list_ex (\<lambda>pattern. str_in pattern (str_lower text)) direct_christ then 3
      else if list_ex (\<lambda>seed. str_lower (PatternSeed.symbol seed) \<in> set strong_types) seeds
      then 2
      else if list_ex (\<lambda>seed. str_lower (PatternSeed.symbol seed) \<in> set light_hints) seeds
      then 1
      else 0)"
  by (simp add: gravity_sync_def Let_def filter_nonempty_iff)

text \<open>
  At a text with a direct keyword and two seeds of the strong tier the score is 3, not 2.
\<close>

theorem gravity_sync_cascade_witness:
  "GravitySync.score
     (gravity_sync ''The Lamb was Crucified''
        [\<lparr>PatternSeed.symbol = ''LAMB'', local_role = [], support = [],
          PatternSeed.score = 7, PatternSeed.frequency = 1,
          PatternSeed.structural_position = 3, PatternSeed.theological_weight = 3\<rparr>,
         \<lparr>PatternSeed.symbol = ''BLOOD'', local_role = [], support = [],
          PatternSeed.score = 7, PatternSeed.frequency = 1,
          PatternSeed.structural_position = 3, PatternSeed.theological_weight = 3\<rparr>]) = 3"
  using gravity_sync_cascade [of "''The Lamb was Crucified''"]
  by (simp add: lower_defs direct_christ_def)

subsection \<open>Rounding to a double\<close>

lemma bit_length_upper: "m < 2 ^ bit_length m"
proof (induction m rule: bit_length.induct)
  case (1 n)
  show ?case
  proof (cases "n = 0")
    case True
    then show ?thesis by simp
  next
    case False
    with 1 have "n div 2 < 2 ^ bit_length (n div 2)" by simp
    then have "n < 2 * 2 ^ bit_length (n div 2)" by linarith
    with False show ?thesis by (subst bit_length.simps) simp
  qed
qed

lemma bit_length_lower: "0 < m \<Longrightarrow> 2 ^ (bit_length m - 1) \<le> m"
proof (induction m rule: bit_length.induct)
  case (1 n)
  show ?case
  proof (cases "n div 2 = 0")
    case True
    with 1(2) have "n = 1" by linarith
    then show ?thesis by (simp add: bit_length.simps [of "Suc 0"] bit_length.simps [of 0])
  next
    case False
    with 1 have ih: "2 ^ (bit_length (n div 2) - 1) \<le> n div 2" by simp
    from False have pos: "0 < bit_length (n div 2)" by (subst bit_length.simps) simp
    have "bit_length n = Suc (bit_length (n div 2))"
      using 1(2) by (subst bit_length.simps) simp
    then have "(2::nat) ^ (bit_length n - 1) = 2 * 2 ^ (bit_length (n div 2) - 1)"
      using pos by (cases "bit_length (n div 2)") simp_all
    with ih show ?thesis by linarith
  qed
qed

lemma bit_length_le: "m < 2 ^ k \<Longrightarrow> bit_length m \<le> k"
proof (cases "m = 0")
  case True
  then show ?thesis by (simp add: bit_length.simps [of 0])
next
  case False
  assume "m < 2 ^ k"
  moreover from False have "2 ^ (bit_length m - 1) \<le> m" by (intro bit_length_lower) simp
  ultimately have "(2::nat) ^ (bit_length m - 1) < 2 ^ k" by (rule order.strict_trans1 [rotated])
  then have "bit_length m - 1 < k" by (simp only: power_strict_increasing_iff one_less_numeral_iff semiring_norm)
  then show ?thesis by simp
qed

lemma bit_length_eq: "2 ^ k \<le> m \<Longrightarrow> m < 2 ^ Suc k \<Longrightarrow> bit_length m = Suc k"
proof -
  assume lo: "2 ^ k \<le> m" and hi: "m < 2 ^ Suc k"
  from hi have "bit_length m \<le> Suc k" by (rule bit_length_le)
  moreover have "(2::nat) ^ k < 2 ^ bit_length m"
    using lo bit_length_upper [of m] by linarith
  then have "k < bit_length m" by simp
  ultimately show ?thesis by simp
qed

lemma round_to_double_small: "m < 2 ^ 53 \<Longrightarrow> round_to_double m = m"
  using bit_length_le [of m 53] by (simp add: round_to_double_def Let_def)

lemma round_to_double_error:
  assumes "m < 2 ^ (53 + k)"
  shows "round_to_double m \<le> m + 2 ^ (k - 1) \<and> m \<le> round_to_double m + 2 ^ (k - 1)"
proof -
  define l where "l = bit_length m"
  have lk: "l \<le> 53 + k" unfolding l_def using assms by (rule bit_length_le)
  show ?thesis
  proof (cases "l \<le> 53")
    case True
    then show ?thesis by (simp add: round_to_double_def Let_def l_def)
  next
    case False
    define s where "s = l - 53"
    define q where "q = m div 2 ^ s"
    define r where "r = m mod 2 ^ s"
    define h where "h = (2::nat) ^ (s - 1)"
    define p where "p = (2::nat) ^ s"
    from False have s1: "1 \<le> s" and sk: "s \<le> k" using lk by (simp_all add: s_def)
    have m: "m = q * p + r" unfolding q_def r_def p_def by (rule div_mult_mod_eq [symmetric])
    have r: "r < p" by (simp add: r_def p_def)
    have hh: "p = 2 * h" using s1 by (cases s) (simp_all add: h_def p_def)
    have hk: "h \<le> 2 ^ (k - 1)" unfolding h_def using sk by (intro power_increasing) simp_all
    have rd: "round_to_double m = (if h < r \<or> (r = h \<and> odd q) then q + 1 else q) * p"
      using False by (simp add: round_to_double_def Let_def l_def s_def q_def r_def h_def p_def)
    show ?thesis
    proof (cases "h < r \<or> (r = h \<and> odd q)")
      case True
      then have "round_to_double m = q * p + p" using rd by (simp add: algebra_simps)
      moreover from True have "h \<le> r" by auto
      ultimately show ?thesis using m r hh hk by linarith
    next
      case False
      then have "round_to_double m = q * p" using rd by auto
      moreover from False have "r \<le> h" by auto
      ultimately show ?thesis using m r hh hk by linarith
    qed
  qed
qed

text \<open>
  A value just above a number of at most 53 bits rounds down to it: the remainder stays
  below half a unit in the last place.
\<close>

lemma round_to_double_down:
  assumes a: "2 ^ k \<le> a" "a < 2 ^ Suc k" and k: "k < 53" and t: "53 \<le> t"
    and e: "e < 2 ^ (k + t - 53)"
  shows "round_to_double (a * 2 ^ t + e) = a * 2 ^ t"
proof -
  define m where "m = a * 2 ^ t + e"
  define s where "s = Suc (k + t) - 53"
  have s: "s - 1 = k + t - 53" "1 \<le> s" "s \<le> t" using k t by (simp_all add: s_def)
  have lo: "2 ^ (k + t) \<le> m"
  proof -
    have "(2::nat) ^ k * 2 ^ t \<le> a * 2 ^ t" using a(1) by (rule mult_le_mono1)
    moreover have "(2::nat) ^ (k + t) = 2 ^ k * 2 ^ t" by (rule power_add)
    ultimately show ?thesis unfolding m_def by linarith
  qed
  have es: "e < 2 ^ (s - 1)" using e by (simp only: s)
  have es2: "e < 2 ^ s"
  proof -
    have "(2::nat) ^ (s - 1) \<le> 2 ^ s" by (intro power_increasing) simp_all
    with es show ?thesis by linarith
  qed
  have e2: "e < 2 ^ t"
  proof -
    have "(2::nat) ^ s \<le> 2 ^ t" using s(3) by (intro power_increasing) simp_all
    with es2 show ?thesis by linarith
  qed
  have hi: "m < 2 ^ Suc (k + t)"
  proof -
    have "Suc a \<le> 2 ^ Suc k" using a(2) by simp
    then have "Suc a * 2 ^ t \<le> 2 ^ Suc k * 2 ^ t" by (rule mult_le_mono1)
    then have "a * 2 ^ t + 2 ^ t \<le> 2 ^ Suc (k + t)" by (simp add: power_add algebra_simps)
    with e2 show ?thesis by (simp add: m_def)
  qed
  have l: "bit_length m = Suc (k + t)" using lo hi by (rule bit_length_eq)
  have dv: "(2::nat) ^ s dvd a * 2 ^ t" using s(3) by (simp add: le_imp_power_dvd)
  have r: "m mod 2 ^ s = e"
    using dv es2 by (simp add: m_def mod_add_left_eq [symmetric] dvd_eq_mod_eq_0)
  have q: "m div 2 ^ s * 2 ^ s = a * 2 ^ t"
  proof -
    have "m div 2 ^ s * 2 ^ s + m mod 2 ^ s = m" by (rule div_mult_mod_eq)
    with r show ?thesis by (simp add: m_def)
  qed
  have "\<not> bit_length m \<le> 53" using l t by simp
  then have "round_to_double m = a * 2 ^ t"
    using r q es l by (simp add: round_to_double_def Let_def s_def)
  then show ?thesis by (simp add: m_def)
qed

text \<open>A positive number lies between two consecutive powers of two.\<close>
lemma bit_length_bracket:
  assumes "0 < (n::nat)" "n < 2 ^ 50"
  obtains k where "2 ^ k \<le> n" "n < 2 ^ Suc k" "k < 53"
proof -
  define k where "k = bit_length n - 1"
  have lo: "2 ^ k \<le> n" unfolding k_def using assms(1) by (rule bit_length_lower)
  have "bit_length n \<noteq> 0" using assms(1) bit_length_upper [of n] by (cases "bit_length n") auto
  then have sk: "Suc k = bit_length n" by (simp add: k_def)
  have hi: "n < 2 ^ Suc k" unfolding sk by (rule bit_length_upper)
  have "bit_length n \<le> 50" using assms(2) by (rule bit_length_le)
  then have k: "k < 53" using sk by simp
  from lo hi k show ?thesis by (rule that)
qed

lemma pow54: "(2::nat) ^ 54 = 18014398509481984" by simp
lemma pow53: "(2::nat) ^ 53 = 9007199254740992" by simp
lemma pow50: "(2::nat) ^ 50 = 1125899906842624" by simp
lemma pow48: "(2::nat) ^ 48 = 281474976710656" by simp
lemma pow102: "(2::nat) ^ 102 = 5070602400912917605986812821504" by simp

lemma lt_len_times_0_5:
  assumes n: "n < 2 ^ 50"
  shows "int_lt_double pos (len_times n double_0_5) = (2 * pos < n)"
proof -
  have n53: "n < 2 ^ 53" using n by (simp only: pow50 pow53)
  have rn: "round_to_double n = n" using n53 by (rule round_to_double_small)
  have "round_to_double (n * 2 ^ 53) = n * 2 ^ 53"
  proof (cases "n = 0")
    case True
    then show ?thesis by (simp add: round_to_double_small)
  next
    case False
    then have "0 < n" by simp
    from this n obtain k where k: "2 ^ k \<le> n" "n < 2 ^ Suc k" "k < 53"
      by (rule bit_length_bracket)
    have "round_to_double (n * 2 ^ 53 + 0) = n * 2 ^ 53"
      using k by (intro round_to_double_down [where k = k]) simp_all
    then show ?thesis by simp
  qed
  then have "len_times n double_0_5 = n * 2 ^ 53"
    by (simp only: len_times_def double_0_5_def rn)
  then show ?thesis by (simp add: int_lt_double_def pow54 pow53)
qed

lemma lt_len_times_0_2:
  assumes n: "n < 2 ^ 50"
  shows "int_lt_double pos (len_times n double_0_2) = (5 * pos < n)"
proof -
  define m where "m = n * 3602879701896397"
  have n': "n < 1125899906842624" using n by (simp only: pow50)
  have rn: "round_to_double n = n" using n' by (intro round_to_double_small) (simp only: pow53)
  have lt: "len_times n double_0_2 = round_to_double m"
    by (simp only: len_times_def double_0_2_def rn m_def)
  have "m < 2 ^ 102" unfolding m_def pow102 using n' by linarith
  then have "m < 2 ^ (53 + 49)" by simp
  then have "round_to_double m \<le> m + 2 ^ (49 - 1) \<and> m \<le> round_to_double m + 2 ^ (49 - 1)"
    by (rule round_to_double_error)
  then have err: "round_to_double m \<le> m + 281474976710656"
    "m \<le> round_to_double m + 281474976710656"
    by simp_all
  consider "5 * pos < n" | "5 * pos = n" | "n < 5 * pos" by linarith
  then have "(pos * 18014398509481984 < round_to_double m) = (5 * pos < n)"
  proof cases
    case 1
    then show ?thesis using err n' unfolding m_def by linarith
  next
    case 2
    have "round_to_double m = pos * 2 ^ 54"
    proof (cases "pos = 0")
      case True
      with 2 show ?thesis by (simp add: m_def round_to_double_small)
    next
      case False
      then have "0 < pos" by simp
      moreover have "pos < 2 ^ 50" unfolding pow50 using 2 n' by linarith
      ultimately obtain k where k: "2 ^ k \<le> pos" "pos < 2 ^ Suc k" "k < 53"
        by (rule bit_length_bracket)
      have "m = pos * 2 ^ 54 + pos" unfolding m_def pow54 using 2 by linarith
      moreover have "round_to_double (pos * 2 ^ 54 + pos) = pos * 2 ^ 54"
        using k by (intro round_to_double_down [where k = k]) simp_all
      ultimately show ?thesis by simp
    qed
    then show ?thesis using 2 by (simp add: pow54)
  next
    case 3
    then show ?thesis using err n' unfolding m_def by linarith
  qed
  then show ?thesis by (simp only: int_lt_double_def lt pow54)
qed

subsection \<open>PATTERN-SEED\<close>

lemma length_str_lower: "length (str_lower s) = length s"
  by (simp add: str_lower_def)

lemma str_in_find: "str_in sub s \<Longrightarrow> \<exists>i. str_find s sub = Some i"
  by (induction s) auto

lemma hd_filter_holds: "filter P xs \<noteq> [] \<Longrightarrow> P (hd (filter P xs))"
proof -
  assume "filter P xs \<noteq> []"
  then have "hd (filter P xs) \<in> set (filter P xs)" by (rule hd_in_set)
  then show ?thesis by simp
qed

lemma score_candidate_position:
  assumes len: "length text < 2 ^ 50" and ms: "ms \<noteq> []"
    and pos: "str_find text_lower (hd ms) = Some pos"
  shows "\<exists>c. score_candidate text text_lower symb data ms = Inr c \<and>
             Candidate.symbol c = symb \<and>
             Candidate.structural_position c =
               (if 5 * pos < length text then 3 else if 2 * pos < length text then 2 else 1)"
proof -
  obtain m0 rest where m: "ms = m0 # rest" using ms by (cases ms) auto
  with pos have "str_index text_lower m0 = Inr pos" by (simp add: str_index_def)
  then show ?thesis
    by (simp add: score_candidate_def m Let_def lt_len_times_0_2 [OF len]
        lt_len_times_0_5 [OF len])
qed

lemma score_candidate_total:
  assumes "ms = filter (\<lambda>keyword. str_in keyword text_lower) kws" "ms \<noteq> []"
  shows "\<exists>c. score_candidate text text_lower symb data ms = Inr c \<and>
             Candidate.score c =
               Candidate.frequency c + Candidate.structural_position c
                 + Candidate.theological_weight c + (if length ms \<ge> 3 then 1 else 0)"
proof -
  obtain m0 rest where m: "ms = m0 # rest" using assms(2) by (cases ms) auto
  have "str_in (hd ms) text_lower" using assms(2) unfolding assms(1) by (rule hd_filter_holds)
  then obtain pos where "str_find text_lower m0 = Some pos" using m str_in_find by fastforce
  then have "str_index text_lower m0 = Inr pos" by (simp add: str_index_def)
  then show ?thesis by (simp add: score_candidate_def m Let_def)
qed

lemma extract_candidates_total:
  "\<exists>cs. extract_candidates text text_lower lexicon = Inr cs"
proof (induction lexicon)
  case Nil
  then show ?case by simp
next
  case (Cons entry lexicon)
  obtain symb data where e: "entry = (symb, data)" by (cases entry)
  from Cons obtain cs where cs: "extract_candidates text text_lower lexicon = Inr cs" by blast
  define ms where "ms = filter (\<lambda>keyword. str_in keyword text_lower) (SymbolData.keywords data)"
  show ?case
  proof (cases "ms = []")
    case True
    then show ?thesis using cs by (simp add: e ms_def)
  next
    case False
    with score_candidate_total [OF ms_def, of "text" symb data]
    obtain c where "score_candidate text text_lower symb data ms = Inr c" by blast
    then show ?thesis using cs False by (simp add: e ms_def [symmetric] Let_def)
  qed
qed

lemma select_seeds_length: "length (select_seeds cs) \<le> 3"
proof -
  have "length (filter (\<lambda>c. 4 \<le> Candidate.score c) (take 3 (sorted_reverse Candidate.score cs)))
          \<le> length (take 3 (sorted_reverse Candidate.score cs))"
    by (rule length_filter_le)
  then show ?thesis by (simp add: select_seeds_def)
qed

lemma make_seed_score: "PatternSeed.score (make_seed c) = Candidate.score c"
  by (simp add: make_seed_def Let_def)

lemma select_seeds_scores: "list_all (\<lambda>s. 4 \<le> PatternSeed.score s) (select_seeds cs)"
  by (simp add: select_seeds_def list_all_iff make_seed_score)

lemma sorted_reverse_descending:
  "sorted_wrt (\<lambda>a b. k b \<le> k a) (sorted_reverse k xs)"
proof -
  have "sorted (map (\<lambda>x. - k x) (sort_key (\<lambda>x. - k x) xs))" by (rule sorted_sort_key)
  then show ?thesis by (simp add: sorted_reverse_def sorted_map)
qed

lemma select_seeds_descending:
  "sorted_wrt (\<lambda>a b. PatternSeed.score b \<le> PatternSeed.score a) (select_seeds cs)"
proof -
  have "sorted_wrt (\<lambda>a b. Candidate.score b \<le> Candidate.score a)
          (sorted_reverse Candidate.score cs)"
    by (rule sorted_reverse_descending)
  then have "sorted_wrt (\<lambda>a b. Candidate.score b \<le> Candidate.score a)
          (take 3 (sorted_reverse Candidate.score cs))"
    by (rule sorted_wrt_take)
  then have "sorted_wrt (\<lambda>a b. Candidate.score b \<le> Candidate.score a)
          (filter (\<lambda>c. 4 \<le> Candidate.score c) (take 3 (sorted_reverse Candidate.score cs)))"
    by (rule sorted_wrt_filter)
  then show ?thesis by (simp add: select_seeds_def sorted_wrt_map make_seed_score)
qed

text \<open>
  Claim C2. For every passage text, \<^verbatim>\<open>pattern_seed\<close> returns (it never raises) at most
  three seeds, every returned seed has a total score of at least 4, and the seeds are in
  descending order of total score.
\<close>

theorem pattern_seed_top3:
  "\<exists>seeds. pattern_seed text = Inr seeds \<and> length seeds \<le> 3 \<and>
     list_all (\<lambda>s. 4 \<le> PatternSeed.score s) seeds \<and>
     sorted_wrt (\<lambda>a b. PatternSeed.score b \<le> PatternSeed.score a) seeds"
proof -
  obtain cs where "extract_candidates text (str_lower text) SYMBOL_LEXICON = Inr cs"
    using extract_candidates_total by blast
  then have "pattern_seed text = Inr (select_seeds cs)" by (simp add: pattern_seed_def)
  then show ?thesis
    using select_seeds_length select_seeds_scores select_seeds_descending by blast
qed

lemma extract_candidates_member:
  assumes len: "length text < 2 ^ 50"
    and mem: "(symb, data) \<in> set lexicon"
    and ms: "ms = filter (\<lambda>keyword. str_in keyword text_lower) (SymbolData.keywords data)"
    and ne: "ms \<noteq> []"
  shows "\<exists>cs c pos. extract_candidates text text_lower lexicon = Inr cs \<and> c \<in> set cs \<and>
           Candidate.symbol c = symb \<and> matches c = ms \<and>
           str_find text_lower (hd ms) = Some pos \<and>
           Candidate.structural_position c =
             (if 5 * pos < length text then 3 else if 2 * pos < length text then 2 else 1)"
  using mem
proof (induction lexicon)
  case Nil
  then show ?case by simp
next
  case (Cons entry lexicon)
  obtain s' d' where e: "entry = (s', d')" by (cases entry)
  obtain cs where cs: "extract_candidates text text_lower lexicon = Inr cs"
    using extract_candidates_total by blast
  define ms' where "ms' = filter (\<lambda>keyword. str_in keyword text_lower) (SymbolData.keywords d')"
  have step: "extract_candidates text text_lower (entry # lexicon) =
      (if ms' \<noteq> [] then
         (case score_candidate text text_lower s' d' ms' of
            Inl e \<Rightarrow> Inl e | Inr c \<Rightarrow> Inr (c # cs))
       else Inr cs)"
    by (simp add: e ms'_def [symmetric] Let_def cs split: sum.splits)
  show ?case
  proof (cases "(symb, data) = entry")
    case True
    then have eq: "s' = symb" "d' = data" using e by simp_all
    then have ms'': "ms' = ms" by (simp add: ms'_def ms)
    have "str_in (hd ms) text_lower" using ne unfolding ms by (rule hd_filter_holds)
    then obtain pos where pos: "str_find text_lower (hd ms) = Some pos"
      using str_in_find by blast
    from score_candidate_position [OF len ne pos, of symb data]
    obtain c where c: "score_candidate text text_lower symb data ms = Inr c"
      "Candidate.symbol c = symb"
      "Candidate.structural_position c =
         (if 5 * pos < length text then 3 else if 2 * pos < length text then 2 else 1)"
      by blast
    have mc: "matches c = ms"
      using c(1)
      by (auto simp: score_candidate_def Let_def str_index_def split: list.splits option.splits)
    have "extract_candidates text text_lower (entry # lexicon) = Inr (c # cs)"
      using step c(1) ne by (simp add: eq ms'')
    then show ?thesis
      using c(2,3) mc pos by (intro exI [of _ "c # cs"] exI [of _ c] exI [of _ pos]) simp
  next
    case False
    with Cons.prems have "(symb, data) \<in> set lexicon" by auto
    from Cons.IH [OF this] cs obtain c pos where c: "c \<in> set cs" "Candidate.symbol c = symb"
      "matches c = ms" "str_find text_lower (hd ms) = Some pos"
      "Candidate.structural_position c =
         (if 5 * pos < length text then 3 else if 2 * pos < length text then 2 else 1)"
      by auto
    show ?thesis
    proof (cases "ms' = []")
      case True
      then show ?thesis using step c by auto
    next
      case False
      from score_candidate_total [OF ms'_def False, of "text" s' d']
      obtain c' where "score_candidate text text_lower s' d' ms' = Inr c'" by blast
      then show ?thesis using step c False by auto
    qed
  qed
qed

lemma lower_lamp: "str_lower ''A lamp gave Light'' = ''a lamp gave light''"
  by (simp add: lower_defs)

text \<open>
  Claim C3. For every passage text (of fewer than \<open>2 ^ 50\<close> characters, where the
  double products decide as exact arithmetic does) and every symbol of the lexicon with
  at least one keyword in the lowered text, the candidate \<^verbatim>\<open>pattern_seed\<close> builds for
  the symbol has structural position 3 if the first match lies in the first 20 percent
  of the text (\<open>5 * pos < length text\<close>), 2 if it lies in the first 50 percent, and 1
  otherwise; the first match is the first occurrence, in the lowered text, of the first
  keyword of the symbol that matched.
\<close>

theorem structural_position_first_match:
  assumes "length text < 2 ^ 50"
    and "(symb, data) \<in> set SYMBOL_LEXICON"
    and "ms = filter (\<lambda>keyword. str_in keyword (str_lower text)) (SymbolData.keywords data)"
    and "ms \<noteq> []"
  shows "\<exists>cs c pos.
           extract_candidates text (str_lower text) SYMBOL_LEXICON = Inr cs \<and>
           pattern_seed text = Inr (select_seeds cs) \<and>
           c \<in> set cs \<and> Candidate.symbol c = symb \<and> matches c = ms \<and>
           str_find (str_lower text) (hd ms) = Some pos \<and>
           Candidate.structural_position c =
             (if 5 * pos < length text then 3 else if 2 * pos < length text then 2 else 1)"
proof -
  from extract_candidates_member [OF assms]
  obtain cs c pos where *: "extract_candidates text (str_lower text) SYMBOL_LEXICON = Inr cs"
    "c \<in> set cs" "Candidate.symbol c = symb" "matches c = ms"
    "str_find (str_lower text) (hd ms) = Some pos"
    "Candidate.structural_position c =
       (if 5 * pos < length text then 3 else if 2 * pos < length text then 2 else 1)"
    by blast
  from *(1) have "pattern_seed text = Inr (select_seeds cs)" by (simp add: pattern_seed_def)
  with * show ?thesis by blast
qed

text \<open>
  The keyword \<^verbatim>\<open>lamp\<close> stands early in this text, but the first matched keyword is
  \<^verbatim>\<open>light\<close>, at position 12 of 17: structural position 1.
\<close>

theorem structural_position_first_match_witness:
  "\<exists>cs c. extract_candidates ''A lamp gave Light'' (str_lower ''A lamp gave Light'')
              SYMBOL_LEXICON = Inr cs \<and>
          c \<in> set cs \<and> Candidate.symbol c = ''LIGHT'' \<and>
          matches c = [''light'', ''lamp''] \<and>
          str_find (str_lower ''A lamp gave Light'') ''light'' = Some 12 \<and>
          Candidate.structural_position c = 1"
proof -
  have "\<exists>cs c pos.
           extract_candidates ''A lamp gave Light'' (str_lower ''A lamp gave Light'')
             SYMBOL_LEXICON = Inr cs \<and>
           pattern_seed ''A lamp gave Light'' = Inr (select_seeds cs) \<and>
           c \<in> set cs \<and> Candidate.symbol c = ''LIGHT'' \<and>
           matches c = [''light'', ''lamp''] \<and>
           str_find (str_lower ''A lamp gave Light'') (hd [''light'', ''lamp'']) = Some pos \<and>
           Candidate.structural_position c =
             (if 5 * pos < length ''A lamp gave Light'' then 3
              else if 2 * pos < length ''A lamp gave Light'' then 2 else 1)"
    by (rule structural_position_first_match
          [where data = "\<lparr>SymbolData.meaning = ''revelation / order'',
             keywords = [''light'', ''lamp'', ''shine'', ''brightness'', ''dawn''],
             weight = 3\<rparr>"])
       (simp_all add: SYMBOL_LEXICON_def lower_lamp)
  then show ?thesis by (auto simp: lower_lamp)
qed

lemma pattern_seed_lamp:
  "pattern_seed ''A lamp gave Light'' =
     Inr [\<lparr>PatternSeed.symbol = ''LIGHT'',
           local_role = ''revelation / order (appears as: light, lamp)'',
           support = [''Mentioned 2 time(s)'', ''Theological weight: 3/3''],
           PatternSeed.score = 6, PatternSeed.frequency = 2,
           PatternSeed.structural_position = 1, PatternSeed.theological_weight = 3\<rparr>]"
  by (simp add: pattern_seed_def lower_lamp SYMBOL_LEXICON_def score_candidate_def
      str_index_def Let_def lt_len_times_0_2 lt_len_times_0_5 select_seeds_def
      sorted_reverse_def make_seed_def str_of_int_def digit_chars_def)

theorem pattern_seed_top3_witness:
  "\<exists>seeds. pattern_seed ''A lamp gave Light'' = Inr seeds \<and> seeds \<noteq> [] \<and> length seeds \<le> 3 \<and>
     list_all (\<lambda>s. 4 \<le> PatternSeed.score s) seeds \<and>
     sorted_wrt (\<lambda>a b. PatternSeed.score b \<le> PatternSeed.score a) seeds"
  using pattern_seed_top3 [of "''A lamp gave Light''"] by (auto simp: pattern_seed_lamp)

subsection \<open>Substrings\<close>

lemma startswith_iff: "startswith s p = (\<exists>post. s = p @ post)"
  by (induction s p rule: startswith.induct) auto

lemma str_in_iff: "str_in sub s = (\<exists>pre post. s = pre @ sub @ post)"
proof (induction s)
  case Nil
  then show ?case by auto
next
  case (Cons c cs)
  show ?case
  proof
    assume "str_in sub (c # cs)"
    then consider "startswith (c # cs) sub" | "str_in sub cs" by auto
    then show "\<exists>pre post. c # cs = pre @ sub @ post"
    proof cases
      case 1
      then obtain post where "c # cs = sub @ post" by (auto simp: startswith_iff)
      then have "c # cs = [] @ sub @ post" by simp
      then show ?thesis by blast
    next
      case 2
      with Cons obtain pre post where "cs = pre @ sub @ post" by auto
      then have "c # cs = (c # pre) @ sub @ post" by simp
      then show ?thesis by blast
    qed
  next
    assume "\<exists>pre post. c # cs = pre @ sub @ post"
    then obtain pre post where eq: "c # cs = pre @ sub @ post" by blast
    show "str_in sub (c # cs)"
    proof (cases pre)
      case Nil
      with eq have "startswith (c # cs) sub" by (auto simp: startswith_iff)
      then show ?thesis by simp
    next
      case (Cons p pre')
      with eq have "cs = pre' @ sub @ post" by simp
      then have "str_in sub cs" using Cons.IH by blast
      then show ?thesis by simp
    qed
  qed
qed

lemma str_in_suffix: "str_in (a @ b) s \<Longrightarrow> str_in b s"
proof -
  assume "str_in (a @ b) s"
  then obtain pre post where "s = pre @ (a @ b) @ post" by (auto simp: str_in_iff)
  then have "s = (pre @ a) @ b @ post" by simp
  then show ?thesis unfolding str_in_iff by blast
qed

subsection \<open>FRACTAL-FILTER\<close>

text \<open>
  Claim C6. For every list of seeds and every list of traces, the checklist of
  \<^verbatim>\<open>fractal_filter\<close> has five entries, and the classification is \<^verbatim>\<open>Fractal\<close> if and
  only if at least three of the five booleans are true; otherwise it is
  \<^verbatim>\<open>Likely Feedback\<close>.
\<close>

theorem fractal_filter_classification:
  "checklist_results (fractal_filter seeds traces) = fractal_checklist seeds traces \<and>
   length (fractal_checklist seeds traces) = 5 \<and>
   (classification (fractal_filter seeds traces) = ''Fractal'') =
     (3 \<le> length (filter (\<lambda>v. v) (map snd (fractal_checklist seeds traces)))) \<and>
   (classification (fractal_filter seeds traces) = ''Likely Feedback'') =
     (length (filter (\<lambda>v. v) (map snd (fractal_checklist seeds traces))) < 3)"
proof -
  have "length (fractal_checklist seeds traces) = 5" by (simp add: fractal_checklist_def)
  then show ?thesis by (auto simp: fractal_filter_def Let_def)
qed

text \<open>
  One seed of weight 1 and one trace with two roles: only the bidirectional check holds,
  so the classification is \<^verbatim>\<open>Likely Feedback\<close>.
\<close>

theorem fractal_filter_classification_witness:
  "classification
     (fractal_filter
        [\<lparr>PatternSeed.symbol = ''HAND'', local_role = [], support = [],
          PatternSeed.score = 4, PatternSeed.frequency = 1,
          PatternSeed.structural_position = 2, PatternSeed.theological_weight = 1\<rparr>]
        [\<lparr>EchoTrace.symbol = ''HAND'',
          spiral_roles = [\<lparr>SpiralRole.spiral = 1, role = ''r'', example = ''e''\<rparr>,
                          \<lparr>SpiralRole.spiral = 2, role = ''r'', example = ''e''\<rparr>],
          overall_arc = [], current_passage_stage = \<lparr>position = [], Stage.reason = []\<rparr>\<rparr>])
     = ''Likely Feedback''"
  using fractal_filter_classification
    [of "[\<lparr>PatternSeed.symbol = ''HAND'', local_role = [], support = [],
          PatternSeed.score = 4, PatternSeed.frequency = 1,
          PatternSeed.structural_position = 2, PatternSeed.theological_weight = 1\<rparr>]"
        "[\<lparr>EchoTrace.symbol = ''HAND'',
          spiral_roles = [\<lparr>SpiralRole.spiral = 1, role = ''r'', example = ''e''\<rparr>,
                          \<lparr>SpiralRole.spiral = 2, role = ''r'', example = ''e''\<rparr>],
          overall_arc = [], current_passage_stage = \<lparr>position = [], Stage.reason = []\<rparr>\<rparr>]"]
  by (simp add: fractal_checklist_def)

subsection \<open>COMP-435\<close>

text \<open>
  Claim C9. For every passage text, \<^verbatim>\<open>has_pattern\<close> of \<^verbatim>\<open>comp_435\<close> is true if and
  only if each of the three word lists has a word in the lowered text; when it is true
  the confidence is \<^verbatim>\<open>Medium\<close> and the mapping is the fixed string, and when it is
  false the confidence is \<^verbatim>\<open>Low\<close> and the mapping is \<^verbatim>\<open>None\<close>.
\<close>

theorem comp_435_pattern:
  "has_pattern (comp_435 text) =
     (list_ex (\<lambda>w. str_in w (str_lower text)) stage_4_words \<and>
      list_ex (\<lambda>w. str_in w (str_lower text)) stage_3_words \<and>
      list_ex (\<lambda>w. str_in w (str_lower text)) stage_5_words) \<and>
   (has_pattern (comp_435 text) \<longrightarrow>
      confidence (comp_435 text) = ''Medium'' \<and>
      mapping (comp_435 text) = Some comp_435_mapping) \<and>
   (\<not> has_pattern (comp_435 text) \<longrightarrow>
      confidence (comp_435 text) = ''Low'' \<and> mapping (comp_435 text) = None)"
  by (simp add: comp_435_def Let_def)

lemma lower_void: "str_lower ''The Void: God said, be Filled'' = ''the void: god said, be filled''"
  by (simp add: lower_defs)

theorem comp_435_pattern_witness:
  "has_pattern (comp_435 ''The Void: God said, be Filled'') \<and>
   confidence (comp_435 ''The Void: God said, be Filled'') = ''Medium'' \<and>
   mapping (comp_435 ''The Void: God said, be Filled'') = Some comp_435_mapping \<and>
   \<not> has_pattern (comp_435 ''God said'') \<and>
   confidence (comp_435 ''God said'') = ''Low'' \<and> mapping (comp_435 ''God said'') = None"
  using comp_435_pattern [of "''The Void: God said, be Filled''"] comp_435_pattern [of "''God said''"]
  by (simp add: lower_void lower_defs stage_4_words_def stage_3_words_def stage_5_words_def)

subsection \<open>Spiral assignment\<close>




lemma lower_luke_acts: "str_lower ''Luke 1:1; Acts 1:1'' = ''luke 1:1; acts 1:1''"
  by (simp add: lower_defs)

text \<open>
  Claim C4 says that a reference with a Gospel name and no name of an earlier spiral is
  assigned stage 6, unless its \<^verbatim>\<open>john\<close> is that of an epistle. The Gospel test of
  \<^verbatim>\<open>assign_spiral\<close> also asks for \<^verbatim>\<open>'john' in ref_lower\<close>, so Matthew, Mark and
  Luke never pass it: they reach stage 6 only through the final default, after the test
  for the remaining New Testament books. This reference names Luke and Acts, no earlier
  book and no epistle of John, and the code returns stage 7.
\<close>

theorem gospel_with_later_book:
  "any_in gospel_books (str_lower ''Luke 1:1; Acts 1:1'') \<and>
   \<not> str_in ''genesis'' (str_lower ''Luke 1:1; Acts 1:1'') \<and>
   \<not> any_in (covenant_books @ law_books @ kingship_books @ wisdom_books)
       (str_lower ''Luke 1:1; Acts 1:1'') \<and>
   \<not> any_in john_epistles (str_lower ''Luke 1:1; Acts 1:1'') \<and>
   assign_spiral ''Luke 1:1; Acts 1:1'' = Inr S7_NEW_CREATION"
  by (simp add: assign_spiral_def lower_luke_acts any_in_def gospel_books_def
      covenant_books_def law_books_def kingship_books_def wisdom_books_def john_epistles_def
      new_creation_books_def)

lemma any_in_append: "any_in (xs @ ys) s = (any_in xs s \<or> any_in ys s)"
  by (simp add: any_in_def list_ex_iff) blast

text \<open>
  What the code does on the references of claim C4: the rule holds for the references
  that contain \<^verbatim>\<open>john\<close>; the others get stage 6 only when no name of the last list
  occurs.
\<close>

lemma assign_spiral_gospel_rule:
  assumes "\<not> str_in ''genesis'' (str_lower rf)"
    and "\<not> any_in (covenant_books @ law_books @ kingship_books @ wisdom_books) (str_lower rf)"
    and "any_in gospel_books (str_lower rf)"
  shows "assign_spiral rf =
           Inr (if any_in john_epistles (str_lower rf) then S7_NEW_CREATION
                else if str_in ''john'' (str_lower rf) then S6_CHRIST
                else if any_in new_creation_books (str_lower rf) then S7_NEW_CREATION
                else S6_CHRIST)"
proof -
  have j: "any_in john_epistles (str_lower rf) \<Longrightarrow> str_in ''john'' (str_lower rf)"
    using str_in_suffix [of "''1 ''" "''john''"] str_in_suffix [of "''2 ''" "''john''"]
      str_in_suffix [of "''3 ''" "''john''"]
    by (auto simp: any_in_def john_epistles_def)
  have n: "str_in ''john'' (str_lower rf) \<Longrightarrow> any_in new_creation_books (str_lower rf)"
    by (simp add: any_in_def new_creation_books_def)
  show ?thesis using assms j n by (auto simp: assign_spiral_def Let_def any_in_append)
qed

subsection \<open>Where the pipeline can raise\<close>

text \<open>
  Every indexing, lookup and \<^verbatim>\<open>max\<close> of the stages succeeds; the one exception that
  can leave \<^verbatim>\<open>telos_run\<close> is the \<^verbatim>\<open>ValueError\<close> of \<^verbatim>\<open>int\<close> in
  \<^verbatim>\<open>assign_spiral\<close>.
\<close>

lemma map_result_total:
  assumes "\<And>x. x \<in> set xs \<Longrightarrow> \<exists>y. f x = Inr y \<and> P y"
  shows "\<exists>ys. map_result f xs = Inr ys \<and> list_all P ys \<and> length ys = length xs"
  using assms
proof (induction xs)
  case Nil
  then show ?case by simp
next
  case (Cons x xs)
  then obtain y where y: "f x = Inr y" "P y" by auto
  from Cons obtain ys where "map_result f xs = Inr ys" "list_all P ys" "length ys = length xs"
    by auto
  with y show ?case by simp
qed

lemma score_segment_total:
  "\<exists>s. score_segment seg = Inr s \<and> map fst (scores s) = all_quadrants"
  by (simp add: score_segment_def QUADRANT_INDICATORS_def all_quadrants_def Let_def)

lemma increment_keys: "map fst (increment q counts) = map fst counts"
  by (induction counts) (auto simp: increment_def)

lemma quad_counts_keys:
  "map fst (foldl (\<lambda>counts s. increment (SegmentScore.quadrant s) counts) init segs)
     = map fst init"
  by (induction segs arbitrary: init) (simp_all add: increment_keys)

lemma length_sorted_reverse: "length (sorted_reverse k xs) = length xs"
  by (simp add: sorted_reverse_def)

lemma all_quadrants_complete: "q \<in> set all_quadrants"
  by (cases q) (simp_all add: all_quadrants_def)

lemma collect_evidence_total:
  assumes "list_all (\<lambda>s. map fst (scores s) = all_quadrants) segs"
  shows "\<exists>evs. collect_evidence segs sq = Inr evs"
proof (induction sq)
  case Nil
  then show ?case by simp
next
  case (Cons entry sq)
  obtain quad count where e: "entry = (quad, count)" by (cases entry)
  from Cons obtain evs where evs: "collect_evidence segs sq = Inr evs" by blast
  show ?case
  proof (cases "filter (\<lambda>s. SegmentScore.quadrant s = quad) segs")
    case Nil
    then show ?thesis using evs by (simp add: e)
  next
    case (Cons ex0 rest)
    then have "ex0 \<in> set (filter (\<lambda>s. SegmentScore.quadrant s = quad) segs)" by simp
    then have "ex0 \<in> set segs" by simp
    with assms have "map fst (scores ex0) = all_quadrants" by (simp add: list_all_iff)
    then have "quad \<in> fst ` set (scores ex0)"
      using all_quadrants_complete [of quad] by (metis set_map)
    then obtain sc where "map_of (scores ex0) quad = Some sc"
      by (metis domD dom_map_of_conv_image_fst)
    then show ?thesis using evs Cons by (simp add: e Let_def)
  qed
qed

lemma quad_map_total: "\<exists>quads. quad_map text = Inr quads"
proof -
  define segments where "segments =
    (if filter (\<lambda>s. s \<noteq> []) (map str_strip (str_split CHR ''.'' text)) = [] then [text]
     else filter (\<lambda>s. s \<noteq> []) (map str_strip (str_split CHR ''.'' text)))"
  obtain segs where segs: "map_result score_segment segments = Inr segs"
    "list_all (\<lambda>s. map fst (scores s) = all_quadrants) segs"
    using map_result_total [of segments score_segment
        "\<lambda>s. map fst (scores s) = all_quadrants"] score_segment_total
    by blast
  define sorted_quads where "sorted_quads =
    sorted_reverse snd (foldl (\<lambda>counts s. increment (SegmentScore.quadrant s) counts)
                          (map (\<lambda>q. (q, 0)) all_quadrants) segs)"
  have "length sorted_quads = length (map fst (foldl (\<lambda>counts s. increment (SegmentScore.quadrant s) counts)
                          (map (\<lambda>q. (q, 0::int)) all_quadrants) segs))"
    by (simp add: sorted_quads_def length_sorted_reverse)
  also have "\<dots> = 4" by (simp only: quad_counts_keys) (simp add: all_quadrants_def)
  finally have len: "length sorted_quads = 4" .
  obtain evs where evs: "collect_evidence segs sorted_quads = Inr evs"
    using collect_evidence_total [OF segs(2)] by blast
  show ?thesis
    using segs(1) len evs
    by (auto simp: quad_map_def Let_def segments_def [symmetric] sorted_quads_def [symmetric]
        py_nth_def)
qed

lemma pattern_seed_total: "\<exists>seeds. pattern_seed text = Inr seeds"
proof -
  obtain cs where "extract_candidates text (str_lower text) SYMBOL_LEXICON = Inr cs"
    using extract_candidates_total by blast
  then show ?thesis by (simp add: pattern_seed_def)
qed

lemma get_symbol_spiral_roles_seven:
  "\<exists>roles. get_symbol_spiral_roles symb = Inr roles \<and> length roles = 7"
  by (simp add: get_symbol_spiral_roles_def roles_map_def)

lemma echo_trace_total:
  "\<exists>t. echo_trace symb sp = Inr t \<and> length (spiral_roles t) = 7"
proof -
  obtain roles where "get_symbol_spiral_roles symb = Inr roles" "length roles = 7"
    using get_symbol_spiral_roles_seven by blast
  then show ?thesis by (simp add: echo_trace_def)
qed

lemma telos_run_total:
  assumes "assign_spiral rf = Inr sp"
  shows "\<exists>r. telos_run rf text = Inr r"
proof -
  obtain quads where q: "quad_map text = Inr quads" using quad_map_total by blast
  obtain seeds where s: "pattern_seed text = Inr seeds" using pattern_seed_total by blast
  obtain traces where
    t: "map_result (\<lambda>seed. echo_trace (PatternSeed.symbol seed) sp) (take 3 seeds) = Inr traces"
    using map_result_total [of "take 3 seeds" "\<lambda>seed. echo_trace (PatternSeed.symbol seed) sp"
        "\<lambda>t. length (spiral_roles t) = 7"] echo_trace_total
    by blast
  show ?thesis using assms q s t by (simp add: telos_run_def Let_def)
qed

lemma assign_spiral_raises:
  assumes "assign_spiral rf = Inl e"
  shows "e = ValueError \<and> str_in ''genesis'' (str_lower rf) \<and>
         (\<exists>group1. re_search_chapter rf = Some group1 \<and> length group1 > 4300)"
  using assms
  by (auto simp: assign_spiral_def Let_def py_int_def default_max_str_digits_def
      split: if_splits option.splits sum.splits)

subsection \<open>The pipeline\<close>

lemma map_result_Inr:
  "map_result f xs = Inr ys \<Longrightarrow>
     length ys = length xs \<and> list_all (\<lambda>y. list_ex (\<lambda>x. f x = Inr y) xs) ys"
proof (induction xs arbitrary: ys)
  case Nil
  then show ?case by simp
next
  case (Cons x xs)
  then obtain y ys' where y: "f x = Inr y" "map_result f xs = Inr ys'" "ys = y # ys'"
    by (auto split: sum.splits)
  with Cons.IH [of ys'] have "length ys' = length xs"
    "list_all (\<lambda>y. list_ex (\<lambda>x. f x = Inr y) xs) ys'" by simp_all
  then show ?case using y by (auto simp: list_all_iff list_ex_iff)
qed

lemma telos_run_fields:
  assumes "telos_run rf text = Inr r"
  shows "\<exists>sp quads seeds traces.
           assign_spiral rf = Inr sp \<and> quad_map text = Inr quads \<and>
           pattern_seed text = Inr seeds \<and>
           map_result (\<lambda>seed. echo_trace (PatternSeed.symbol seed) sp) (take 3 seeds) = Inr traces \<and>
           TelosRun.spiral r = sp \<and> quadrants r = quads \<and> pattern_seeds r = seeds \<and>
           echo_traces r = traces \<and>
           TelosRun.gravity_sync r = gravity_sync text seeds \<and>
           TelosRun.comp_435 r = comp_435 text \<and>
           TelosRun.fractal_filter r = fractal_filter seeds traces"
  using assms by (auto simp: telos_run_def Let_def split: sum.splits)

lemma traces_of_seeds:
  assumes "map_result (\<lambda>seed. echo_trace (PatternSeed.symbol seed) sp)
             (take 3 (seeds :: PatternSeed list)) = Inr traces"
  shows "(traces = []) = (seeds = [])" and "list_all (\<lambda>t. length (spiral_roles t) = 7) traces"
proof -
  from map_result_Inr [OF assms]
  have len: "length traces = length (take 3 seeds)"
    and ex: "list_all (\<lambda>y. list_ex (\<lambda>x. echo_trace (PatternSeed.symbol x) sp = Inr y) (take 3 seeds))
               traces"
    by simp_all
  from len show "(traces = []) = (seeds = [])" by (cases seeds; cases traces) simp_all
  show "list_all (\<lambda>t. length (spiral_roles t) = 7) traces"
    unfolding list_all_iff
  proof
    fix t assume "t \<in> set traces"
    with ex have "list_ex (\<lambda>x. echo_trace (PatternSeed.symbol x) sp = Inr t) (take 3 seeds)"
      by (simp add: list_all_iff)
    then obtain x :: PatternSeed where "echo_trace (PatternSeed.symbol x) sp = Inr t"
      by (auto simp: list_ex_iff)
    with echo_trace_total [of "PatternSeed.symbol x" sp] show "length (spiral_roles t) = 7"
      by auto
  qed
qed

text \<open>
  Claim C7. For every run of the pipeline that returns, every echo trace has exactly
  seven spiral roles, so the checks for echo density, cross-spiral reach and the
  bidirectional check hold exactly when a seed was detected, and with no seed all five
  checks fail: the classification is \<^verbatim>\<open>Fractal\<close> if and only if there is at least one
  pattern seed, and \<^verbatim>\<open>Likely Feedback\<close> with none.
\<close>

theorem fractal_iff_seed:
  assumes "telos_run rf text = Inr r"
  shows "list_all (\<lambda>t. length (spiral_roles t) = 7) (echo_traces r) \<and>
         checklist_results (TelosRun.fractal_filter r) =
           [(''echo_density'', pattern_seeds r \<noteq> []),
            (''cross_spiral_reach'', pattern_seeds r \<noteq> []),
            (''theological_load'',
               list_ex (\<lambda>seed. 2 \<le> PatternSeed.theological_weight seed) (pattern_seeds r)),
            (''controls'', 2 \<le> length (pattern_seeds r)),
            (''bidirectional'', pattern_seeds r \<noteq> [])] \<and>
         (classification (TelosRun.fractal_filter r) = ''Fractal'') = (pattern_seeds r \<noteq> []) \<and>
         (pattern_seeds r = [] \<longrightarrow>
            classification (TelosRun.fractal_filter r) = ''Likely Feedback'')"
proof -
  from telos_run_fields [OF assms] obtain sp seeds traces where
    t: "map_result (\<lambda>seed. echo_trace (PatternSeed.symbol seed) sp) (take 3 seeds) = Inr traces"
    and f: "pattern_seeds r = seeds" "echo_traces r = traces"
      "TelosRun.fractal_filter r = fractal_filter seeds traces"
    by blast
  note tr = traces_of_seeds [OF t]
  have seven: "list_all (\<lambda>t. length (spiral_roles t) = 7) traces" by (rule tr(2))
  then have a3: "list_all (\<lambda>t. 3 \<le> length (spiral_roles t)) traces"
    by (simp add: list_all_iff)
  have a5: "list_ex (\<lambda>t. 5 \<le> length (spiral_roles t)) traces = (traces \<noteq> [])"
    using seven by (cases traces) (simp_all add: list_all_iff)
  have chk: "fractal_checklist seeds traces =
           [(''echo_density'', seeds \<noteq> []),
            (''cross_spiral_reach'', seeds \<noteq> []),
            (''theological_load'', list_ex (\<lambda>seed. 2 \<le> PatternSeed.theological_weight seed) seeds),
            (''controls'', 2 \<le> length seeds),
            (''bidirectional'', seeds \<noteq> [])]"
    using a3 a5 tr(1) by (simp add: fractal_checklist_def)
  have res: "checklist_results (fractal_filter seeds traces) = fractal_checklist seeds traces"
    by (simp add: fractal_filter_def Let_def)
  have cls: "(classification (fractal_filter seeds traces) = ''Fractal'') = (seeds \<noteq> [])"
    unfolding fractal_filter_def Let_def chk by auto
  have fb: "seeds = [] \<Longrightarrow> classification (fractal_filter seeds traces) = ''Likely Feedback''"
    unfolding fractal_filter_def Let_def chk by auto
  show ?thesis using seven chk res cls fb by (simp add: f)
qed

lemma assign_spiral_john: "assign_spiral ''John 19:30'' = Inr S6_CHRIST"
  by (simp add: assign_spiral_def lower_defs any_in_def gospel_books_def
      covenant_books_def law_books_def kingship_books_def wisdom_books_def john_epistles_def)

theorem fractal_iff_seed_witness:
  "\<exists>r. telos_run ''John 19:30'' ''A lamp gave Light'' = Inr r \<and> pattern_seeds r \<noteq> [] \<and>
        classification (TelosRun.fractal_filter r) = ''Fractal''"
proof -
  obtain r where r: "telos_run ''John 19:30'' ''A lamp gave Light'' = Inr r"
    using telos_run_total [OF assign_spiral_john] by blast
  from telos_run_fields [OF r] have "pattern_seed ''A lamp gave Light'' = Inr (pattern_seeds r)"
    by auto
  then have "pattern_seeds r \<noteq> []" using pattern_seed_lamp by auto
  with fractal_iff_seed [OF r] r show ?thesis by blast
qed

lemma pattern_seed_empty: "pattern_seed [] = Inr []"
  by (simp add: pattern_seed_def str_lower_def SYMBOL_LEXICON_def select_seeds_def
      sorted_reverse_def)

lemma score_quadrant_nohit:
  "list_all (\<lambda>k. \<not> str_in k sl) (QuadrantIndicator.keywords ind) \<Longrightarrow>
     score_quadrant sl ind = \<lparr>QuadScore.score = 0, QuadScore.keywords = []\<rparr>"
  by (simp add: score_quadrant_def Let_def list_all_iff filter_empty_conv)

lemma scores_empty:
  "map (\<lambda>(quad, indicators). (quad, score_quadrant [] indicators)) QUADRANT_INDICATORS =
     [(SW, \<lparr>QuadScore.score = 0, QuadScore.keywords = []\<rparr>),
      (SE, \<lparr>QuadScore.score = 0, QuadScore.keywords = []\<rparr>),
      (NE, \<lparr>QuadScore.score = 0, QuadScore.keywords = []\<rparr>),
      (NW, \<lparr>QuadScore.score = 0, QuadScore.keywords = []\<rparr>)]"
  by (simp add: QUADRANT_INDICATORS_def score_quadrant_nohit)

lemma score_segment_empty:
  "score_segment [] =
     Inr \<lparr>segment = [], SegmentScore.quadrant = SW,
              scores = [(SW, \<lparr>QuadScore.score = 0, QuadScore.keywords = []\<rparr>),
                        (SE, \<lparr>QuadScore.score = 0, QuadScore.keywords = []\<rparr>),
                        (NE, \<lparr>QuadScore.score = 0, QuadScore.keywords = []\<rparr>),
                        (NW, \<lparr>QuadScore.score = 0, QuadScore.keywords = []\<rparr>)]\<rparr>"
  by (simp add: score_segment_def str_lower_def scores_empty)

lemma quad_map_empty:
  "quad_map [] =
     Inr \<lparr>primary_quadrant = SW, secondary_quadrant = None, movement = ''Static SW'',
          evidence = [\<lparr>Evidence.quadrant = ''SW'', Evidence.reason = ''Tonal match''\<rparr>],
          segment_scores =
            [\<lparr>segment = [], SegmentScore.quadrant = SW,
              scores = [(SW, \<lparr>QuadScore.score = 0, QuadScore.keywords = []\<rparr>),
                        (SE, \<lparr>QuadScore.score = 0, QuadScore.keywords = []\<rparr>),
                        (NE, \<lparr>QuadScore.score = 0, QuadScore.keywords = []\<rparr>),
                        (NW, \<lparr>QuadScore.score = 0, QuadScore.keywords = []\<rparr>)]\<rparr>]\<rparr>"
  by (simp add: quad_map_def str_strip_def score_segment_empty all_quadrants_def increment_def
      sorted_reverse_def py_nth_def compress_movement_def)

text \<open>
  Claim C8. On the empty text \<^verbatim>\<open>quad_map\<close> makes one segment, all four of its scores
  zero, with primary quadrant \<^verbatim>\<open>SW\<close> (the first of the enumeration) and no secondary
  quadrant; \<^verbatim>\<open>pattern_seed\<close> returns no seed; the score of \<^verbatim>\<open>gravity_sync\<close> is 0; and
  \<^verbatim>\<open>fractal_filter\<close> answers \<^verbatim>\<open>Likely Feedback\<close>. The same holds of every run of the
  pipeline on the empty text.
\<close>

theorem empty_text:
  "quad_map [] =
     Inr \<lparr>primary_quadrant = SW, secondary_quadrant = None, movement = ''Static SW'',
          evidence = [\<lparr>Evidence.quadrant = ''SW'', Evidence.reason = ''Tonal match''\<rparr>],
          segment_scores =
            [\<lparr>segment = [], SegmentScore.quadrant = SW,
              scores = [(SW, \<lparr>QuadScore.score = 0, QuadScore.keywords = []\<rparr>),
                        (SE, \<lparr>QuadScore.score = 0, QuadScore.keywords = []\<rparr>),
                        (NE, \<lparr>QuadScore.score = 0, QuadScore.keywords = []\<rparr>),
                        (NW, \<lparr>QuadScore.score = 0, QuadScore.keywords = []\<rparr>)]\<rparr>]\<rparr> \<and>
   pattern_seed [] = Inr [] \<and>
   GravitySync.score (gravity_sync [] []) = 0 \<and>
   classification (fractal_filter [] []) = ''Likely Feedback'' \<and>
   (\<forall>rf r. telos_run rf [] = Inr r \<longrightarrow>
      length (segment_scores (quadrants r)) = 1 \<and>
      primary_quadrant (quadrants r) = SW \<and> secondary_quadrant (quadrants r) = None \<and>
      pattern_seeds r = [] \<and> echo_traces r = [] \<and>
      GravitySync.score (TelosRun.gravity_sync r) = 0 \<and>
      classification (TelosRun.fractal_filter r) = ''Likely Feedback'')"
proof -
  have g: "GravitySync.score (gravity_sync [] []) = 0"
    by (simp add: gravity_sync_def str_lower_def direct_christ_def)
  have f: "classification (fractal_filter [] []) = ''Likely Feedback''"
    by (simp add: fractal_filter_def fractal_checklist_def)
  have "length (segment_scores (quadrants r)) = 1 \<and>
      primary_quadrant (quadrants r) = SW \<and> secondary_quadrant (quadrants r) = None \<and>
      pattern_seeds r = [] \<and> echo_traces r = [] \<and>
      GravitySync.score (TelosRun.gravity_sync r) = 0 \<and>
      classification (TelosRun.fractal_filter r) = ''Likely Feedback''"
    if "telos_run rf [] = Inr r" for rf r
    using telos_run_fields [OF that] g f by (auto simp: quad_map_empty pattern_seed_empty)
  then show ?thesis using quad_map_empty pattern_seed_empty g f by blast
qed

theorem empty_text_witness:
  "\<exists>r. telos_run ''John 19:30'' [] = Inr r \<and>
        length (segment_scores (quadrants r)) = 1 \<and>
        primary_quadrant (quadrants r) = SW \<and> secondary_quadrant (quadrants r) = None \<and>
        pattern_seeds r = [] \<and>
        GravitySync.score (TelosRun.gravity_sync r) = 0 \<and>
        classification (TelosRun.fractal_filter r) = ''Likely Feedback''"
proof -
  obtain r where r: "telos_run ''John 19:30'' [] = Inr r"
    using telos_run_total [OF assign_spiral_john] by blast
  with empty_text show ?thesis by blast
qed

subsection \<open>The exception that leaves the pipeline\<close>

lemma str_lower_append: "str_lower (a @ b) = str_lower a @ str_lower b"
  by (simp add: str_lower_def)

lemma re_search_chapter_digits:
  assumes "ds \<noteq> []" and "list_all isdigit ds"
  shows "re_search_chapter (ds @ CHR '':'' # rest) = Some ds"
proof -
  have d: "\<And>x. x \<in> set ds \<Longrightarrow> isdigit x" using assms(2) by (simp add: list_all_iff)
  have c: "\<not> isdigit CHR '':''" by (simp add: isdigit_def digit_chars_def)
  have t: "takeWhile isdigit (ds @ CHR '':'' # rest) = ds"
    using d c by (simp add: takeWhile_append2)
  have dr: "dropWhile isdigit (ds @ CHR '':'' # rest) = CHR '':'' # rest"
    using d c by (simp add: dropWhile_append2)
  have m: "match_chapter_at (ds @ CHR '':'' # rest) = Some ds"
    using assms(1) by (simp add: match_chapter_at_def t dr)
  obtain x xs where "ds = x # xs" using assms(1) by (cases ds) auto
  then have "re_search_chapter (ds @ CHR '':'' # rest) =
      (case match_chapter_at (ds @ CHR '':'' # rest) of Some g \<Rightarrow> Some g
       | None \<Rightarrow> re_search_chapter (xs @ CHR '':'' # rest))"
    by simp
  then show ?thesis by (simp add: m)
qed

lemma long_chapter_search:
  "re_search_chapter (''Genesis '' @ replicate 4301 CHR ''1'' @ '':1'')
     = Some (replicate 4301 CHR ''1'')"
proof -
  have "re_search_chapter (replicate 4301 CHR ''1'' @ CHR '':'' # ''1'')
          = Some (replicate 4301 CHR ''1'')"
    by (rule re_search_chapter_digits)
      (simp_all add: list_all_iff isdigit_def digit_chars_def)
  moreover have "re_search_chapter (''Genesis '' @ s) = re_search_chapter s"
    if "s \<noteq> []" for s
    using that by (cases s) (simp_all add: match_chapter_at_def isdigit_def digit_chars_def)
  ultimately show ?thesis by simp
qed

lemma long_chapter_genesis:
  "str_in ''genesis'' (str_lower (''Genesis '' @ replicate 4301 CHR ''1'' @ '':1''))"
proof -
  define tl where "tl = str_lower (replicate 4301 CHR ''1'' @ '':1'')"
  have "str_lower ''Genesis '' = ''genesis ''" by (simp add: lower_defs)
  then have "str_lower (''Genesis '' @ replicate 4301 CHR ''1'' @ '':1'') = ''genesis '' @ tl"
    by (simp only: str_lower_append tl_def)
  also have "\<dots> = [] @ ''genesis'' @ ('' '' @ tl)" by simp
  finally show ?thesis unfolding str_in_iff by blast
qed

lemma long_chapter_spiral:
  "assign_spiral (''Genesis '' @ replicate 4301 CHR ''1'' @ '':1'') = Inl ValueError"
  using long_chapter_genesis long_chapter_search
  by (simp add: assign_spiral_def Let_def py_int_def default_max_str_digits_def)

text \<open>
  Claim C10 says that \<^verbatim>\<open>telos_run\<close> never raises. For a Genesis reference whose
  chapter has 4301 digits, and any text, \<^verbatim>\<open>int(match.group(1))\<close> in
  \<^verbatim>\<open>assign_spiral\<close> raises \<^verbatim>\<open>ValueError\<close>, which nothing catches: the run ends
  with the exception and returns no report.
\<close>

theorem telos_run_long_chapter:
  "telos_run (''Genesis '' @ replicate 4301 CHR ''1'' @ '':1'') text = Inl ValueError"
  using long_chapter_spiral by (simp add: telos_run_def)

text \<open>
  This is the only way the pipeline raises: on every other reference, and every text,
  it returns a report (\<open>telos_run_total\<close>).
\<close>

lemma telos_run_raises:
  assumes "telos_run rf text = Inl e"
  shows "assign_spiral rf = Inl e \<and> e = ValueError \<and> str_in ''genesis'' (str_lower rf) \<and>
         (\<exists>group1. re_search_chapter rf = Some group1 \<and> length group1 > 4300)"
proof (cases "assign_spiral rf")
  case (Inl e')
  with assms have "e' = e" by (simp add: telos_run_def)
  with Inl assign_spiral_raises [of rf e] show ?thesis by simp
next
  case (Inr sp)
  then obtain r where "telos_run rf text = Inr r" using telos_run_total by blast
  with assms show ?thesis by simp
qed

end
